theory Spec2Isabelle
  imports Complex_Main
begin

section \<open>JavaScript values\<close>

text \<open>
  A JavaScript number is a finite double, one of the two zeros, NaN or an infinity.
  \<open>Fin q\<close> stands for the finite double whose exact value is the rational \<open>q\<close>
  (\<open>Fin 0\<close> is \<open>+0\<close>). The service performs no floating-point arithmetic on a
  coordinate: it only formats it with \<open>Number.prototype.toFixed\<close>, which ECMA-262
  defines on the exact mathematical value of the number.
\<close>

datatype jsnum = Fin rat | NegZero | NaN | PosInf | NegInf

text \<open>
  The values a parsed JSON payload (and a caller's argument) can be, with \<open>undefined\<close>
  for an absent property. An object is the list of its own properties.
\<close>

datatype jsval =
    JUndefined
  | JNull
  | JBool bool
  | JNum jsnum
  | JStr string
  | JArr "jsval list"
  | JObj "(string \<times> jsval) list"

text \<open>
  What a \<open>try\<close> block of the service can catch and what a call can throw: a
  \<open>TypeError\<close> of the language, an \<open>Error\<close> made with \<open>new Error(message)\<close>, and
  the three shapes of a rejected HTTP request: \<open>error.response\<close> set (with its status and
  body), only \<open>error.request\<close> set, neither set.
\<close>

datatype exn =
    TypeError
  | Error string
  | HttpError int jsval
  | NoResponse
  | SetupError

definition bindE :: "'e + 'a \<Rightarrow> ('a \<Rightarrow> 'e + 'b) \<Rightarrow> 'e + 'b" where
  "bindE m f = (case m of Inl e \<Rightarrow> Inl e | Inr x \<Rightarrow> f x)"

definition nullish :: "jsval \<Rightarrow> bool" where
  "nullish v = (case v of JUndefined \<Rightarrow> True | JNull \<Rightarrow> True | _ \<Rightarrow> False)"

text \<open>Truthiness, as \<open>||\<close> and \<open>&&\<close> test it.\<close>

definition truthy :: "jsval \<Rightarrow> bool" where
  "truthy v =
     (case v of
        JUndefined \<Rightarrow> False
      | JNull \<Rightarrow> False
      | JBool b \<Rightarrow> b
      | JNum n \<Rightarrow> (case n of Fin q \<Rightarrow> q \<noteq> 0 | NegZero \<Rightarrow> False | NaN \<Rightarrow> False | _ \<Rightarrow> True)
      | JStr s \<Rightarrow> s \<noteq> []
      | JArr _ \<Rightarrow> True
      | JObj _ \<Rightarrow> True)"

text \<open>\<open>a || b\<close> on values.\<close>

definition orElse :: "jsval \<Rightarrow> jsval \<Rightarrow> jsval" where
  "orElse a b = (if truthy a then a else b)"

text \<open>
  \<open>v.k\<close> for the property names the service reads (\<open>location\<close>, \<open>name\<close>, \<open>lat\<close>, ...):
  a \<open>TypeError\<close> on \<open>null\<close> and \<open>undefined\<close>, the own property of an object, and
  \<open>undefined\<close> on a primitive or an array, none of which has a property of these names.
\<close>

definition getProp :: "jsval \<Rightarrow> string \<Rightarrow> exn + jsval" where
  "getProp v k =
     (case v of
        JUndefined \<Rightarrow> Inl TypeError
      | JNull \<Rightarrow> Inl TypeError
      | JObj kvs \<Rightarrow> Inr (case map_of kvs k of None \<Rightarrow> JUndefined | Some x \<Rightarrow> x)
      | _ \<Rightarrow> Inr JUndefined)"

text \<open>\<open>v?.k\<close>: \<open>undefined\<close> when \<open>v\<close> is nullish.\<close>

definition optProp :: "jsval \<Rightarrow> string \<Rightarrow> exn + jsval" where
  "optProp v k = (if nullish v then Inr JUndefined else getProp v k)"

text \<open>\<open>v.a?.b\<close>\<close>

definition chain :: "jsval \<Rightarrow> string \<Rightarrow> string \<Rightarrow> exn + jsval" where
  "chain v a b = bindE (getProp v a) (\<lambda>x. optProp x b)"

section \<open>Number.prototype.toFixed(2)\<close>

definition digit :: "nat \<Rightarrow> char" where
  "digit d = ''0123456789'' ! d"

function digits :: "nat \<Rightarrow> string" where
  "digits n = (if n < 10 then [digit n] else digits (n div 10) @ [digit (n mod 10)])"
  by pat_completeness auto
termination
  by (relation "measure id") auto

text \<open>
  ECMA-262, Number.prototype.toFixed with \<open>fractionDigits = 2\<close>. A non-finite number is
  printed by name; \<open>-0\<close> is \<open>0\<close>; a negative number is printed as \<open>-\<close> and its absolute
  value; from \<open>10^21\<close> on the result is that of \<open>Number::toString\<close>, which is a parameter
  here (\<open>numberToString\<close>); below, \<open>n\<close> is the integer closest to \<open>100 x\<close>, the larger
  one of two, and its digits are padded to three and split by the point.
\<close>

definition toFixed :: "(rat \<Rightarrow> string) \<Rightarrow> jsnum \<Rightarrow> string" where
  "toFixed numberToString v =
     (case v of
        NaN \<Rightarrow> ''NaN''
      | PosInf \<Rightarrow> ''Infinity''
      | NegInf \<Rightarrow> ''-Infinity''
      | NegZero \<Rightarrow> ''0.00''
      | Fin q \<Rightarrow>
          (let s = (if q < 0 then ''-'' else '''');
               x = \<bar>q\<bar>
           in if 10 ^ 21 \<le> x then s @ numberToString x
              else
                (let n = nat \<lfloor>x * 100 + 1 / 2\<rfloor>;
                     m = digits n;
                     m = (if length m \<le> 2 then replicate (3 - length m) CHR ''0'' @ m else m);
                     k = length m
                 in s @ take (k - 2) m @ ''.'' @ drop (k - 2) m)))"

section \<open>The service\<close>

record weather_location =
  name :: jsval
  lat :: jsval
  lon :: jsval
  country :: jsval
  timezone :: jsval

record weather_current =
  temperature :: jsval
  feelsLike :: jsval
  humidity :: jsval
  pressure :: jsval
  windSpeed :: jsval
  windDirection :: jsval
  visibility :: jsval
  uvIndex :: jsval
  condition :: jsval
  description :: jsval
  icon :: jsval
  timestamp :: jsval

record hourly_point =
  time :: jsval
  temperature :: jsval
  condition :: jsval
  description :: jsval
  icon :: jsval
  precipitation :: jsval
  windSpeed :: jsval

record daily_point =
  date :: jsval
  temperatureMin :: jsval
  temperatureMax :: jsval
  condition :: jsval
  description :: jsval
  icon :: jsval
  precipitation :: jsval
  humidity :: jsval
  windSpeed :: jsval

record weather_snapshot =
  location :: weather_location
  current :: weather_current
  hourly :: "hourly_point list"
  daily :: "daily_point list"

record cache_entry =
  data :: weather_snapshot
  timestamp :: int

record weather_service =
  baseURL :: string
  cache :: "string \<rightharpoonup> cache_entry"
  cacheTimeout :: int

text \<open>
  The constructor, given the environment variable \<open>REACT_APP_API_URL\<close> (absent, or a
  string; the empty string is falsy).
\<close>

definition constructor :: "string option \<Rightarrow> weather_service" where
  "constructor env =
     \<lparr> baseURL = (case env of None \<Rightarrow> ''/api/weather''
                   | Some u \<Rightarrow> if u \<noteq> [] then u else ''/api/weather''),
       cache = Map.empty,
       cacheTimeout = 10 * 60 * 1000 \<rparr>"

text \<open>
  \<open>lat.toFixed(2)\<close> on a value: only a number has the method; on anything else the
  access or the call is a \<open>TypeError\<close>.
\<close>

definition callToFixed :: "(rat \<Rightarrow> string) \<Rightarrow> jsval \<Rightarrow> exn + string" where
  "callToFixed numberToString v =
     (case v of JNum n \<Rightarrow> Inr (toFixed numberToString n) | _ \<Rightarrow> Inl TypeError)"

definition getCacheKey :: "(rat \<Rightarrow> string) \<Rightarrow> jsval \<Rightarrow> jsval \<Rightarrow> exn + string" where
  "getCacheKey numberToString latv lonv =
     bindE (callToFixed numberToString latv) (\<lambda>a.
     bindE (callToFixed numberToString lonv) (\<lambda>b.
     Inr (a @ '','' @ b)))"

definition isCacheValid :: "weather_service \<Rightarrow> int \<Rightarrow> cache_entry \<Rightarrow> bool" where
  "isCacheValid svc now cacheEntry = (now - cache_entry.timestamp cacheEntry < cacheTimeout svc)"

text \<open>
  The user-facing message of a caught error: by the status when \<open>error.response\<close> is
  set, else by \<open>error.request\<close>, else the general one (which is also what a caught
  \<open>TypeError\<close> or \<open>Error\<close> gets, having neither property).
\<close>

definition getErrorMessage :: "exn \<Rightarrow> string" where
  "getErrorMessage error =
     (case error of
        HttpError status body \<Rightarrow>
          (if status = 404 then ''Location not found. Please check your ZIP code.''
           else if status = 429 then ''Too many requests. Please wait a moment and try again.''
           else if status = 500 then ''Weather service is temporarily unavailable.''
           else ''Unable to fetch weather data. Please try again.'')
      | NoResponse \<Rightarrow> ''No internet connection. Please check your network.''
      | _ \<Rightarrow> ''Something went wrong. Please try again.'')"

subsection \<open>Normalization\<close>

fun mapE :: "('a \<Rightarrow> 'e + 'b) \<Rightarrow> 'a list \<Rightarrow> 'e + 'b list" where
  "mapE f [] = Inr []"
| "mapE f (x # xs) =
     (case f x of
        Inl e \<Rightarrow> Inl e
      | Inr y \<Rightarrow> (case mapE f xs of Inl e \<Rightarrow> Inl e | Inr ys \<Rightarrow> Inr (y # ys)))"

text \<open>
  \<open>v?.map(f) || []\<close>: the empty list when \<open>v\<close> is nullish, the mapped elements when
  it is an array (an array is truthy, also when empty), and a \<open>TypeError\<close> on anything
  else, which has no function \<open>map\<close> to call.
\<close>

definition optMapOrEmpty :: "(jsval \<Rightarrow> exn + 'b) \<Rightarrow> jsval \<Rightarrow> exn + 'b list" where
  "optMapOrEmpty f v =
     (case v of
        JUndefined \<Rightarrow> Inr []
      | JNull \<Rightarrow> Inr []
      | JArr xs \<Rightarrow> mapE f xs
      | _ \<Rightarrow> Inl TypeError)"

text \<open>The arrow function mapped over \<open>rawData.hourly\<close>.\<close>

definition hourlyPoint :: "jsval \<Rightarrow> exn + hourly_point" where
  "hourlyPoint hour =
     bindE (getProp hour ''time'') (\<lambda>v1.
     bindE (getProp hour ''temperature'') (\<lambda>v2.
     bindE (getProp hour ''condition'') (\<lambda>v3.
     bindE (getProp hour ''description'') (\<lambda>v4.
     bindE (getProp hour ''icon'') (\<lambda>v5.
     bindE (getProp hour ''precipitation'') (\<lambda>v6.
     bindE (getProp hour ''windSpeed'') (\<lambda>v7.
     Inr \<lparr> hourly_point.time = v1,
           hourly_point.temperature = v2,
           hourly_point.condition = v3,
           hourly_point.description = v4,
           hourly_point.icon = v5,
           hourly_point.precipitation = orElse v6 (JNum (Fin 0)),
           hourly_point.windSpeed = orElse v7 (JNum (Fin 0)) \<rparr>)))))))"

text \<open>The arrow function mapped over \<open>rawData.daily\<close>.\<close>

definition dailyPoint :: "jsval \<Rightarrow> exn + daily_point" where
  "dailyPoint day =
     bindE (getProp day ''date'') (\<lambda>v1.
     bindE (getProp day ''temperatureMin'') (\<lambda>v2.
     bindE (getProp day ''temperatureMax'') (\<lambda>v3.
     bindE (getProp day ''condition'') (\<lambda>v4.
     bindE (getProp day ''description'') (\<lambda>v5.
     bindE (getProp day ''icon'') (\<lambda>v6.
     bindE (getProp day ''precipitation'') (\<lambda>v7.
     bindE (getProp day ''humidity'') (\<lambda>v8.
     bindE (getProp day ''windSpeed'') (\<lambda>v9.
     Inr \<lparr> daily_point.date = v1,
           daily_point.temperatureMin = v2,
           daily_point.temperatureMax = v3,
           daily_point.condition = v4,
           daily_point.description = v5,
           daily_point.icon = v6,
           daily_point.precipitation = orElse v7 (JNum (Fin 0)),
           daily_point.humidity = orElse v8 (JNum (Fin 0)),
           daily_point.windSpeed = orElse v9 (JNum (Fin 0)) \<rparr>)))))))))"

text \<open>
  \<open>transformWeatherData(rawData)\<close>, with the value \<open>now\<close> that \<open>Date.now()\<close> returns
  there. The properties of the object literal are evaluated in the order of the source;
  each \<open>rawData.a?.b\<close> is a \<open>chain\<close>.
\<close>

definition transformWeatherData :: "int \<Rightarrow> jsval \<Rightarrow> exn + weather_snapshot" where
  "transformWeatherData now rawData =
     bindE (chain rawData ''location'' ''name'') (\<lambda>l1.
     bindE (chain rawData ''location'' ''lat'') (\<lambda>l2.
     bindE (chain rawData ''location'' ''lon'') (\<lambda>l3.
     bindE (chain rawData ''location'' ''country'') (\<lambda>l4.
     bindE (chain rawData ''location'' ''timezone'') (\<lambda>l5.
     bindE (chain rawData ''current'' ''temperature'') (\<lambda>c1.
     bindE (chain rawData ''current'' ''feelsLike'') (\<lambda>c2.
     bindE (chain rawData ''current'' ''humidity'') (\<lambda>c3.
     bindE (chain rawData ''current'' ''pressure'') (\<lambda>c4.
     bindE (chain rawData ''current'' ''windSpeed'') (\<lambda>c5.
     bindE (chain rawData ''current'' ''windDirection'') (\<lambda>c6.
     bindE (chain rawData ''current'' ''visibility'') (\<lambda>c7.
     bindE (chain rawData ''current'' ''uvIndex'') (\<lambda>c8.
     bindE (chain rawData ''current'' ''condition'') (\<lambda>c9.
     bindE (chain rawData ''current'' ''description'') (\<lambda>c10.
     bindE (chain rawData ''current'' ''icon'') (\<lambda>c11.
     bindE (chain rawData ''current'' ''timestamp'') (\<lambda>c12.
     bindE (bindE (getProp rawData ''hourly'') (optMapOrEmpty hourlyPoint)) (\<lambda>hs.
     bindE (bindE (getProp rawData ''daily'') (optMapOrEmpty dailyPoint)) (\<lambda>ds.
     Inr \<lparr> location =
             \<lparr> weather_location.name = orElse l1 (JStr ''Unknown Location''),
               weather_location.lat = orElse l2 (JNum (Fin 0)),
               weather_location.lon = orElse l3 (JNum (Fin 0)),
               weather_location.country = orElse l4 (JStr []),
               weather_location.timezone = orElse l5 (JStr ''UTC'') \<rparr>,
           current =
             \<lparr> weather_current.temperature = orElse c1 (JNum (Fin 0)),
               weather_current.feelsLike = orElse c2 (JNum (Fin 0)),
               weather_current.humidity = orElse c3 (JNum (Fin 0)),
               weather_current.pressure = orElse c4 (JNum (Fin 0)),
               weather_current.windSpeed = orElse c5 (JNum (Fin 0)),
               weather_current.windDirection = orElse c6 (JNum (Fin 0)),
               weather_current.visibility = orElse c7 (JNum (Fin 0)),
               weather_current.uvIndex = orElse c8 (JNum (Fin 0)),
               weather_current.condition = orElse c9 (JStr ''clear''),
               weather_current.description = orElse c10 (JStr ''Clear sky''),
               weather_current.icon = orElse c11 (JStr ''01d''),
               weather_current.timestamp = orElse c12 (JNum (Fin (of_int now))) \<rparr>,
           hourly = hs,
           daily = ds \<rparr>)))))))))))))))))))"

subsection \<open>Lookups\<close>

text \<open>
  A request is \<open>axios.get(url, { params })\<close>. What the surroundings do during one call
  is a \<open>world\<close>: the value of \<open>Date.now()\<close> at the validity check, what the request
  resolves to (the response's \<open>data\<close>) or is rejected with, and the values of
  \<open>Date.now()\<close> inside the normalization and at the cache write. Nothing is assumed
  about the order of the three clock values.
\<close>

datatype request = Get string "(string \<times> jsval) list"

record world =
  now_check :: int
  respond :: "request \<Rightarrow> exn + jsval"
  now_transform :: int
  now_store :: int

text \<open>
  A call returns what its promise settles to (\<open>Inl\<close> a rejection, \<open>Inr\<close> the data),
  the service afterwards, and the requests it issued.
\<close>

type_synonym outcome = "(exn + weather_snapshot) \<times> weather_service \<times> request list"

definition getWeatherData ::
  "(rat \<Rightarrow> string) \<Rightarrow> weather_service \<Rightarrow> world \<Rightarrow> jsval \<Rightarrow> jsval \<Rightarrow> outcome" where
  "getWeatherData numberToString svc w latv lonv =
     (case getCacheKey numberToString latv lonv of
        Inl e \<Rightarrow> (Inl e, svc, [])
      | Inr cacheKey \<Rightarrow>
          (case (case cache svc cacheKey of
                   None \<Rightarrow> None
                 | Some cached \<Rightarrow>
                     if isCacheValid svc (now_check w) cached then Some cached else None) of
             Some cached \<Rightarrow> (Inr (data cached), svc, [])
           | None \<Rightarrow>
               (let req = Get (baseURL svc @ ''/coords'') [(''lat'', latv), (''lon'', lonv)]
                in case bindE (respond w req) (transformWeatherData (now_transform w)) of
                     Inr weatherData \<Rightarrow>
                       (Inr weatherData,
                        svc\<lparr>cache := (cache svc)(cacheKey \<mapsto>
                               \<lparr>data = weatherData, timestamp = now_store w\<rparr>)\<rparr>,
                        [req])
                   | Inl error \<Rightarrow> (Inl (Error (getErrorMessage error)), svc, [req]))))"

definition getWeatherByCoords ::
  "(rat \<Rightarrow> string) \<Rightarrow> weather_service \<Rightarrow> world \<Rightarrow> jsval \<Rightarrow> jsval \<Rightarrow> outcome" where
  "getWeatherByCoords numberToString svc w latv lonv =
     getWeatherData numberToString svc w latv lonv"

definition getWeatherByZip ::
  "(rat \<Rightarrow> string) \<Rightarrow> weather_service \<Rightarrow> world \<Rightarrow> jsval \<Rightarrow> outcome" where
  "getWeatherByZip numberToString svc w zipCode =
     (let req = Get (baseURL svc @ ''/zip'') [(''zip'', zipCode)]
      in case bindE (respond w req) (\<lambda>rawData.
              bindE (transformWeatherData (now_transform w) rawData) (\<lambda>weatherData.
              bindE (getCacheKey numberToString
                       (lat (location weatherData)) (lon (location weatherData))) (\<lambda>cacheKey.
              Inr (weatherData, cacheKey)))) of
           Inr (weatherData, cacheKey) \<Rightarrow>
             (Inr weatherData,
              svc\<lparr>cache := (cache svc)(cacheKey \<mapsto>
                     \<lparr>data = weatherData, timestamp = now_store w\<rparr>)\<rparr>,
              [req])
         | Inl error \<Rightarrow> (Inl (Error (getErrorMessage error)), svc, [req]))"

definition clearCache :: "weather_service \<Rightarrow> weather_service" where
  "clearCache svc = svc\<lparr>cache := Map.empty\<rparr>"

section \<open>Notions used to state the properties\<close>

text \<open>\<open>v?.k\<close> as a total function: \<open>undefined\<close> where \<open>v.k\<close> would throw.\<close>

definition member :: "jsval \<Rightarrow> string \<Rightarrow> jsval" where
  "member v k = (case getProp v k of Inl _ \<Rightarrow> JUndefined | Inr x \<Rightarrow> x)"

text \<open>
  The shapes of \<open>rawData.hourly\<close> and \<open>rawData.daily\<close> that the normalization maps:
  absent or \<open>null\<close>, or an array none of whose elements is \<open>null\<close> or \<open>undefined\<close>.
\<close>

definition forecastOk :: "jsval \<Rightarrow> bool" where
  "forecastOk v =
     (case v of
        JUndefined \<Rightarrow> True
      | JNull \<Rightarrow> True
      | JArr xs \<Rightarrow> list_all (\<lambda>x. \<not> nullish x) xs
      | _ \<Rightarrow> False)"

text \<open>
  The defaults of the fields of \<open>location\<close> and \<open>current\<close>: the property's name in
  the raw payload, the field of the snapshot, the default.
\<close>

definition locationDefaults :: "(string \<times> (weather_location \<Rightarrow> jsval) \<times> jsval) list" where
  "locationDefaults =
     [(''name'', weather_location.name, JStr ''Unknown Location''),
      (''lat'', weather_location.lat, JNum (Fin 0)),
      (''lon'', weather_location.lon, JNum (Fin 0)),
      (''country'', weather_location.country, JStr []),
      (''timezone'', weather_location.timezone, JStr ''UTC'')]"

definition currentDefaults :: "int \<Rightarrow> (string \<times> (weather_current \<Rightarrow> jsval) \<times> jsval) list" where
  "currentDefaults now =
     [(''temperature'', weather_current.temperature, JNum (Fin 0)),
      (''feelsLike'', weather_current.feelsLike, JNum (Fin 0)),
      (''humidity'', weather_current.humidity, JNum (Fin 0)),
      (''pressure'', weather_current.pressure, JNum (Fin 0)),
      (''windSpeed'', weather_current.windSpeed, JNum (Fin 0)),
      (''windDirection'', weather_current.windDirection, JNum (Fin 0)),
      (''visibility'', weather_current.visibility, JNum (Fin 0)),
      (''uvIndex'', weather_current.uvIndex, JNum (Fin 0)),
      (''condition'', weather_current.condition, JStr ''clear''),
      (''description'', weather_current.description, JStr ''Clear sky''),
      (''icon'', weather_current.icon, JStr ''01d''),
      (''timestamp'', weather_current.timestamp, JNum (Fin (of_int now)))]"

text \<open>
  The fields of a forecast point: the property's name in the raw element, the field of
  the point, and the default, if the field has one. \<open>pointField\<close> is what such a field
  holds for a raw element: the raw value as it is (so \<open>undefined\<close> when absent) when
  there is no default, else the raw value when truthy and the default otherwise.
\<close>

definition hourlyFields :: "(string \<times> (hourly_point \<Rightarrow> jsval) \<times> jsval option) list" where
  "hourlyFields =
     [(''time'', hourly_point.time, None),
      (''temperature'', hourly_point.temperature, None),
      (''condition'', hourly_point.condition, None),
      (''description'', hourly_point.description, None),
      (''icon'', hourly_point.icon, None),
      (''precipitation'', hourly_point.precipitation, Some (JNum (Fin 0))),
      (''windSpeed'', hourly_point.windSpeed, Some (JNum (Fin 0)))]"

definition dailyFields :: "(string \<times> (daily_point \<Rightarrow> jsval) \<times> jsval option) list" where
  "dailyFields =
     [(''date'', daily_point.date, None),
      (''temperatureMin'', daily_point.temperatureMin, None),
      (''temperatureMax'', daily_point.temperatureMax, None),
      (''condition'', daily_point.condition, None),
      (''description'', daily_point.description, None),
      (''icon'', daily_point.icon, None),
      (''precipitation'', daily_point.precipitation, Some (JNum (Fin 0))),
      (''humidity'', daily_point.humidity, Some (JNum (Fin 0))),
      (''windSpeed'', daily_point.windSpeed, Some (JNum (Fin 0)))]"

definition pointField :: "jsval \<Rightarrow> string \<Rightarrow> jsval option \<Rightarrow> jsval" where
  "pointField v k d = (case d of None \<Rightarrow> member v k | Some x \<Rightarrow> orElse (member v k) x)"

text \<open>
  Rounding to two decimals as a number, in the words of the specification: the number
  of hundredths that \<open>q\<close> rounds to, a half going away from zero. Both a small positive
  and a small negative \<open>q\<close> round to 0.
\<close>

definition roundedHundredths :: "rat \<Rightarrow> int" where
  "roundedHundredths q =
     (if q < 0 then - \<lfloor>- q * 100 + 1 / 2\<rfloor> else \<lfloor>q * 100 + 1 / 2\<rfloor>)"

text \<open>
  Two finite numbers below \<open>10^21\<close> in magnitude that round to the same number of
  hundredths and are both negative or both not negative.
\<close>

definition sameTwoDecimals :: "jsnum \<Rightarrow> jsnum \<Rightarrow> bool" where
  "sameTwoDecimals a b =
     (case a of
        Fin p \<Rightarrow>
          (case b of
             Fin q \<Rightarrow>
               \<bar>p\<bar> < 10 ^ 21 \<and> \<bar>q\<bar> < 10 ^ 21
               \<and> roundedHundredths p = roundedHundredths q \<and> (p < 0) = (q < 0)
           | _ \<Rightarrow> False)
      | _ \<Rightarrow> False)"

text \<open>
  The world in which every clock value read during the call is \<open>t\<close> and every request
  settles as \<open>r\<close>.
\<close>

definition exampleWorld :: "int \<Rightarrow> exn + jsval \<Rightarrow> world" where
  "exampleWorld t r = \<lparr> now_check = t, respond = (\<lambda>_. r), now_transform = t, now_store = t \<rparr>"

section \<open>Evaluation and basic facts\<close>

declare digits.simps [simp del]

lemma bindE_Inl [simp]: "bindE (Inl e) f = Inl e"
  by (simp add: bindE_def)

lemma bindE_Inr [simp]: "bindE (Inr x) f = f x"
  by (simp add: bindE_def)

lemma floor_rat_numeral: "\<lfloor>(numeral a / numeral b :: rat)\<rfloor> = numeral a div numeral b"
  by (metis floor_divide_of_int_eq of_int_numeral)

lemma digits_small: "n < 10 \<Longrightarrow> digits n = [digit n]"
  by (simp add: digits.simps)

lemma digits_big: "10 \<le> n \<Longrightarrow> digits n = digits (n div 10) @ [digit (n mod 10)]"
  by (subst digits.simps) simp

lemmas toFixed_eval = toFixed_def digits_small digits_big digit_def floor_rat_numeral

lemma getProp_nullish: "nullish v \<Longrightarrow> getProp v k = Inl TypeError"
  by (cases v) (simp_all add: nullish_def getProp_def)

lemma getProp_member: "\<not> nullish v \<Longrightarrow> getProp v k = Inr (member v k)"
  by (cases v) (simp_all add: nullish_def getProp_def member_def)

lemma optProp_member: "optProp v k = Inr (member v k)"
  by (cases v) (simp_all add: optProp_def nullish_def getProp_def member_def)

lemma chain_nullish: "nullish v \<Longrightarrow> chain v a b = Inl TypeError"
  by (simp add: chain_def getProp_nullish)

lemma chain_member: "\<not> nullish v \<Longrightarrow> chain v a b = Inr (member (member v a) b)"
  by (simp add: chain_def getProp_member optProp_member)

subsection \<open>When the normalization throws\<close>

lemma hourlyPoint_nullish: "nullish hour \<Longrightarrow> hourlyPoint hour = Inl TypeError"
  by (simp add: hourlyPoint_def getProp_nullish)

lemma dailyPoint_nullish: "nullish day \<Longrightarrow> dailyPoint day = Inl TypeError"
  by (simp add: dailyPoint_def getProp_nullish)

lemma hourlyPoint_ok: "\<not> nullish hour \<Longrightarrow> \<exists>p. hourlyPoint hour = Inr p"
  by (simp add: hourlyPoint_def getProp_member)

lemma dailyPoint_ok: "\<not> nullish day \<Longrightarrow> \<exists>p. dailyPoint day = Inr p"
  by (simp add: dailyPoint_def getProp_member)

lemma mapE_total:
  assumes "\<And>x. nullish x \<Longrightarrow> f x = Inl TypeError"
      and "\<And>x. \<not> nullish x \<Longrightarrow> \<exists>p. f x = Inr p"
  shows "(\<exists>ys. mapE f xs = Inr ys) \<longleftrightarrow> list_all (\<lambda>x. \<not> nullish x) xs"
    and "mapE f xs = Inl e \<Longrightarrow> e = TypeError"
proof -
  show "(\<exists>ys. mapE f xs = Inr ys) \<longleftrightarrow> list_all (\<lambda>x. \<not> nullish x) xs"
  proof (induction xs)
    case Nil
    show ?case by simp
  next
    case (Cons x xs)
    show ?case
    proof (cases "nullish x")
      case True
      then show ?thesis by (simp add: assms(1))
    next
      case False
      then obtain p where "f x = Inr p" using assms(2) by blast
      with False Cons show ?thesis by (auto split: sum.splits)
    qed
  qed
  show "mapE f xs = Inl e \<Longrightarrow> e = TypeError"
  proof (induction xs)
    case Nil
    then show ?case by simp
  next
    case (Cons x xs)
    show ?case
    proof (cases "nullish x")
      case True
      with Cons.prems show ?thesis by (simp add: assms(1))
    next
      case False
      then obtain p where "f x = Inr p" using assms(2) by blast
      with Cons show ?thesis by (auto split: sum.splits)
    qed
  qed
qed

lemma optMapOrEmpty_total:
  assumes "\<And>x. nullish x \<Longrightarrow> f x = Inl TypeError"
      and "\<And>x. \<not> nullish x \<Longrightarrow> \<exists>p. f x = Inr p"
  shows "(\<exists>ys. optMapOrEmpty f v = Inr ys) \<longleftrightarrow> forecastOk v"
    and "optMapOrEmpty f v = Inl e \<Longrightarrow> e = TypeError"
  using mapE_total [of f, OF assms]
  by (cases v; simp add: optMapOrEmpty_def forecastOk_def; blast)+

lemma optMapOrEmpty_nullish: "nullish v \<Longrightarrow> optMapOrEmpty f v = Inr []"
  by (cases v) (simp_all add: optMapOrEmpty_def nullish_def)

lemma transform_nullish:
  "nullish rawData \<Longrightarrow> transformWeatherData now rawData = Inl TypeError"
  by (simp add: transformWeatherData_def chain_nullish)

lemma transform_member:
  assumes "\<not> nullish rawData"
  shows "transformWeatherData now rawData =
     bindE (optMapOrEmpty hourlyPoint (member rawData ''hourly'')) (\<lambda>hs.
     bindE (optMapOrEmpty dailyPoint (member rawData ''daily'')) (\<lambda>ds.
     Inr \<lparr> location =
             \<lparr> weather_location.name =
                 orElse (member (member rawData ''location'') ''name'') (JStr ''Unknown Location''),
               weather_location.lat =
                 orElse (member (member rawData ''location'') ''lat'') (JNum (Fin 0)),
               weather_location.lon =
                 orElse (member (member rawData ''location'') ''lon'') (JNum (Fin 0)),
               weather_location.country =
                 orElse (member (member rawData ''location'') ''country'') (JStr []),
               weather_location.timezone =
                 orElse (member (member rawData ''location'') ''timezone'') (JStr ''UTC'') \<rparr>,
           current =
             \<lparr> weather_current.temperature =
                 orElse (member (member rawData ''current'') ''temperature'') (JNum (Fin 0)),
               weather_current.feelsLike =
                 orElse (member (member rawData ''current'') ''feelsLike'') (JNum (Fin 0)),
               weather_current.humidity =
                 orElse (member (member rawData ''current'') ''humidity'') (JNum (Fin 0)),
               weather_current.pressure =
                 orElse (member (member rawData ''current'') ''pressure'') (JNum (Fin 0)),
               weather_current.windSpeed =
                 orElse (member (member rawData ''current'') ''windSpeed'') (JNum (Fin 0)),
               weather_current.windDirection =
                 orElse (member (member rawData ''current'') ''windDirection'') (JNum (Fin 0)),
               weather_current.visibility =
                 orElse (member (member rawData ''current'') ''visibility'') (JNum (Fin 0)),
               weather_current.uvIndex =
                 orElse (member (member rawData ''current'') ''uvIndex'') (JNum (Fin 0)),
               weather_current.condition =
                 orElse (member (member rawData ''current'') ''condition'') (JStr ''clear''),
               weather_current.description =
                 orElse (member (member rawData ''current'') ''description'') (JStr ''Clear sky''),
               weather_current.icon =
                 orElse (member (member rawData ''current'') ''icon'') (JStr ''01d''),
               weather_current.timestamp =
                 orElse (member (member rawData ''current'') ''timestamp'')
                   (JNum (Fin (of_int now))) \<rparr>,
           hourly = hs,
           daily = ds \<rparr>))"
  using assms by (simp add: transformWeatherData_def chain_member getProp_member)

lemma transform_succeeds_iff:
  "(\<exists>s. transformWeatherData now rawData = Inr s) \<longleftrightarrow>
     \<not> nullish rawData \<and> forecastOk (member rawData ''hourly'')
       \<and> forecastOk (member rawData ''daily'')"
proof (cases "nullish rawData")
  case True
  then show ?thesis by (simp add: transform_nullish)
next
  case False
  have h: "forecastOk (member rawData ''hourly'') \<longleftrightarrow>
      (\<exists>ys. optMapOrEmpty hourlyPoint (member rawData ''hourly'') = Inr ys)"
    using optMapOrEmpty_total(1) [of hourlyPoint, OF hourlyPoint_nullish hourlyPoint_ok]
    by simp
  have d: "forecastOk (member rawData ''daily'') \<longleftrightarrow>
      (\<exists>ys. optMapOrEmpty dailyPoint (member rawData ''daily'') = Inr ys)"
    using optMapOrEmpty_total(1) [of dailyPoint, OF dailyPoint_nullish dailyPoint_ok]
    by simp
  show ?thesis
    unfolding transform_member [OF False] h d
    using False
    by (cases "optMapOrEmpty hourlyPoint (member rawData ''hourly'')";
        cases "optMapOrEmpty dailyPoint (member rawData ''daily'')") simp_all
qed

lemma transform_error:
  assumes "transformWeatherData now rawData = Inl e"
  shows "e = TypeError"
proof (cases "nullish rawData")
  case True
  with assms show ?thesis by (simp add: transform_nullish)
next
  case False
  note h = optMapOrEmpty_total(2) [of hourlyPoint "member rawData ''hourly''" e,
      OF hourlyPoint_nullish hourlyPoint_ok]
  note d = optMapOrEmpty_total(2) [of dailyPoint "member rawData ''daily''" e,
      OF dailyPoint_nullish dailyPoint_ok]
  from assms h d show ?thesis
    unfolding transform_member [OF False]
    by (auto simp: bindE_def split: sum.splits)
qed

lemma transform_fields:
  assumes "transformWeatherData now rawData = Inr s"
  shows "\<forall>(k, sel, d) \<in> set locationDefaults.
           sel (location s) = orElse (member (member rawData ''location'') k) d"
    and "\<forall>(k, sel, d) \<in> set (currentDefaults now).
           sel (current s) = orElse (member (member rawData ''current'') k) d"
    and "nullish (member rawData ''hourly'') \<longrightarrow> hourly s = []"
    and "nullish (member rawData ''daily'') \<longrightarrow> daily s = []"
proof -
  have nn: "\<not> nullish rawData"
    using assms transform_succeeds_iff [of now rawData] by blast
  obtain hs ds where
    hs: "optMapOrEmpty hourlyPoint (member rawData ''hourly'') = Inr hs" and
    ds: "optMapOrEmpty dailyPoint (member rawData ''daily'') = Inr ds"
    using assms unfolding transform_member [OF nn]
    by (cases "optMapOrEmpty hourlyPoint (member rawData ''hourly'')";
        cases "optMapOrEmpty dailyPoint (member rawData ''daily'')") simp_all
  from assms have s: "s = projr (transformWeatherData now rawData)" by simp
  show "\<forall>(k, sel, d) \<in> set locationDefaults.
           sel (location s) = orElse (member (member rawData ''location'') k) d"
    unfolding s transform_member [OF nn] hs ds by (simp add: locationDefaults_def)
  show "\<forall>(k, sel, d) \<in> set (currentDefaults now).
           sel (current s) = orElse (member (member rawData ''current'') k) d"
    unfolding s transform_member [OF nn] hs ds by (simp add: currentDefaults_def)
  show "nullish (member rawData ''hourly'') \<longrightarrow> hourly s = []"
  proof
    assume "nullish (member rawData ''hourly'')"
    with hs have "hs = []" by (simp add: optMapOrEmpty_nullish)
    then show "hourly s = []"
      unfolding s transform_member [OF nn] hs ds by simp
  qed
  show "nullish (member rawData ''daily'') \<longrightarrow> daily s = []"
  proof
    assume "nullish (member rawData ''daily'')"
    with ds have "ds = []" by (simp add: optMapOrEmpty_nullish)
    then show "daily s = []"
      unfolding s transform_member [OF nn] hs ds by simp
  qed
qed

lemma mapE_Inr:
  "mapE f xs = Inr ys \<Longrightarrow> length ys = length xs \<and> (\<forall>i<length xs. f (xs ! i) = Inr (ys ! i))"
proof (induction xs arbitrary: ys)
  case Nil
  then show ?case by simp
next
  case (Cons x xs)
  from Cons.prems obtain y zs where
    y: "f x = Inr y" and zs: "mapE f xs = Inr zs" and ys: "ys = y # zs"
    by (auto split: sum.splits)
  from Cons.IH [OF zs] y ys show ?case
    by (auto simp: nth_Cons split: nat.splits)
qed

lemma hourlyPoint_fields:
  assumes "hourlyPoint hour = Inr p"
  shows "\<forall>(k, sel, d) \<in> set hourlyFields. sel p = pointField hour k d"
proof -
  have nn: "\<not> nullish hour" using assms hourlyPoint_nullish [of hour] by auto
  from assms show ?thesis
    by (auto simp: hourlyPoint_def getProp_member [OF nn] hourlyFields_def pointField_def)
qed

lemma dailyPoint_fields:
  assumes "dailyPoint day = Inr p"
  shows "\<forall>(k, sel, d) \<in> set dailyFields. sel p = pointField day k d"
proof -
  have nn: "\<not> nullish day" using assms dailyPoint_nullish [of day] by auto
  from assms show ?thesis
    by (auto simp: dailyPoint_def getProp_member [OF nn] dailyFields_def pointField_def)
qed

lemma optMapOrEmpty_JArr: "optMapOrEmpty f (JArr xs) = mapE f xs"
  by (simp add: optMapOrEmpty_def)

lemma transform_points:
  assumes "transformWeatherData now rawData = Inr s"
  shows "\<forall>xs. member rawData ''hourly'' = JArr xs \<longrightarrow>
           length (hourly s) = length xs
         \<and> (\<forall>i<length xs. \<forall>(k, sel, d) \<in> set hourlyFields.
                sel (hourly s ! i) = pointField (xs ! i) k d)"
    and "\<forall>xs. member rawData ''daily'' = JArr xs \<longrightarrow>
           length (daily s) = length xs
         \<and> (\<forall>i<length xs. \<forall>(k, sel, d) \<in> set dailyFields.
                sel (daily s ! i) = pointField (xs ! i) k d)"
proof -
  have nn: "\<not> nullish rawData"
    using assms transform_succeeds_iff [of now rawData] by blast
  obtain hs ds where
    hs: "optMapOrEmpty hourlyPoint (member rawData ''hourly'') = Inr hs" and
    ds: "optMapOrEmpty dailyPoint (member rawData ''daily'') = Inr ds"
    using assms unfolding transform_member [OF nn]
    by (cases "optMapOrEmpty hourlyPoint (member rawData ''hourly'')";
        cases "optMapOrEmpty dailyPoint (member rawData ''daily'')") simp_all
  from assms have s: "s = projr (transformWeatherData now rawData)" by simp
  have h: "hourly s = hs" and d: "daily s = ds"
    unfolding s transform_member [OF nn] hs ds by simp_all
  show "\<forall>xs. member rawData ''hourly'' = JArr xs \<longrightarrow>
           length (hourly s) = length xs
         \<and> (\<forall>i<length xs. \<forall>(k, sel, d) \<in> set hourlyFields.
                sel (hourly s ! i) = pointField (xs ! i) k d)"
  proof (intro allI impI)
    fix xs assume "member rawData ''hourly'' = JArr xs"
    with hs have "mapE hourlyPoint xs = Inr hs" by (simp add: optMapOrEmpty_JArr)
    from mapE_Inr [OF this] show "length (hourly s) = length xs
         \<and> (\<forall>i<length xs. \<forall>(k, sel, d) \<in> set hourlyFields.
                sel (hourly s ! i) = pointField (xs ! i) k d)"
      unfolding h using hourlyPoint_fields by blast
  qed
  show "\<forall>xs. member rawData ''daily'' = JArr xs \<longrightarrow>
           length (daily s) = length xs
         \<and> (\<forall>i<length xs. \<forall>(k, sel, d) \<in> set dailyFields.
                sel (daily s ! i) = pointField (xs ! i) k d)"
  proof (intro allI impI)
    fix xs assume "member rawData ''daily'' = JArr xs"
    with ds have "mapE dailyPoint xs = Inr ds" by (simp add: optMapOrEmpty_JArr)
    from mapE_Inr [OF this] show "length (daily s) = length xs
         \<and> (\<forall>i<length xs. \<forall>(k, sel, d) \<in> set dailyFields.
                sel (daily s ! i) = pointField (xs ! i) k d)"
      unfolding d using dailyPoint_fields by blast
  qed
qed

lemmas transform_eval =
  transformWeatherData_def chain_def getProp_def optProp_def nullish_def optMapOrEmpty_def
  orElse_def truthy_def hourlyPoint_def dailyPoint_def

subsection \<open>Cache key and lookups\<close>

lemma getCacheKey_numbers:
  "getCacheKey nts (JNum a) (JNum b) = Inr (toFixed nts a @ '','' @ toFixed nts b)"
  by (simp add: getCacheKey_def callToFixed_def)

lemma getWeatherData_no_key:
  "getCacheKey nts latv lonv = Inl e \<Longrightarrow> getWeatherData nts svc w latv lonv = (Inl e, svc, [])"
  by (simp add: getWeatherData_def)

lemma getWeatherData_hit:
  assumes "getCacheKey nts latv lonv = Inr k" and "cache svc k = Some c"
      and "isCacheValid svc (now_check w) c"
  shows "getWeatherData nts svc w latv lonv = (Inr (data c), svc, [])"
  using assms by (simp add: getWeatherData_def)

lemma getWeatherData_miss:
  assumes "getCacheKey nts latv lonv = Inr k"
      and "\<forall>c. cache svc k = Some c \<longrightarrow> \<not> isCacheValid svc (now_check w) c"
  shows "getWeatherData nts svc w latv lonv =
     (case bindE (respond w (Get (baseURL svc @ ''/coords'') [(''lat'', latv), (''lon'', lonv)]))
             (transformWeatherData (now_transform w)) of
        Inr weatherData \<Rightarrow>
          (Inr weatherData,
           svc\<lparr>cache := (cache svc)(k \<mapsto> \<lparr>data = weatherData, timestamp = now_store w\<rparr>)\<rparr>,
           [Get (baseURL svc @ ''/coords'') [(''lat'', latv), (''lon'', lonv)]])
      | Inl error \<Rightarrow>
          (Inl (Error (getErrorMessage error)), svc,
           [Get (baseURL svc @ ''/coords'') [(''lat'', latv), (''lon'', lonv)]]))"
  using assms by (cases "cache svc k") (simp_all add: getWeatherData_def Let_def)

lemma getWeatherData_success:
  assumes r: "getWeatherData nts svc w latv lonv = (Inr snap, svc1, tr)"
      and k: "getCacheKey nts latv lonv = Inr k"
  shows "\<exists>c. cache svc1 k = Some c \<and> data c = snap
           \<and> (tr \<noteq> [] \<longrightarrow> cache_entry.timestamp c = now_store w)
           \<and> cacheTimeout svc1 = cacheTimeout svc \<and> baseURL svc1 = baseURL svc"
proof (cases "\<exists>c. cache svc k = Some c \<and> isCacheValid svc (now_check w) c")
  case True
  then obtain c where c: "cache svc k = Some c" "isCacheValid svc (now_check w) c" by blast
  from r show ?thesis
    unfolding getWeatherData_hit [OF k c] using c by simp
next
  case False
  then have m: "\<forall>c. cache svc k = Some c \<longrightarrow> \<not> isCacheValid svc (now_check w) c" by blast
  from r show ?thesis
    unfolding getWeatherData_miss [OF k m]
    by (auto split: sum.splits)
qed

lemma getWeatherData_failure:
  assumes "getWeatherData nts svc w latv lonv = (Inl e, svc1, tr)"
  shows "svc1 = svc"
  using assms
  by (auto simp: getWeatherData_def Let_def split: sum.splits option.splits if_splits)

lemma getWeatherByZip_trace:
  "snd (snd (getWeatherByZip nts svc w zipCode)) = [Get (baseURL svc @ ''/zip'') [(''zip'', zipCode)]]"
  by (simp add: getWeatherByZip_def Let_def split: sum.splits prod.splits)

lemma getWeatherByZip_success:
  assumes "getWeatherByZip nts svc w zipCode = (Inr snap, svc1, tr)"
  shows "\<exists>rawData k.
           respond w (Get (baseURL svc @ ''/zip'') [(''zip'', zipCode)]) = Inr rawData
         \<and> transformWeatherData (now_transform w) rawData = Inr snap
         \<and> getCacheKey nts (lat (location snap)) (lon (location snap)) = Inr k
         \<and> svc1 = svc\<lparr>cache := (cache svc)(k \<mapsto> \<lparr>data = snap, timestamp = now_store w\<rparr>)\<rparr>"
  using assms
  by (auto simp: getWeatherByZip_def Let_def bindE_def split: sum.splits prod.splits)

lemma getWeatherByZip_failure:
  assumes "getWeatherByZip nts svc w zipCode = (Inl e, svc1, tr)"
  shows "svc1 = svc"
  using assms
  by (auto simp: getWeatherByZip_def Let_def split: sum.splits prod.splits)

lemma floor_near_zero:
  fixes q :: rat
  assumes "0 \<le> q" and "q < 1 / 200"
  shows "\<lfloor>q * 100 + 1 / 2\<rfloor> = 0"
proof -
  have "0 \<le> q * 100 + 1 / 2" using assms by simp
  moreover have "q * 100 + 1 / 2 < 1" using assms by simp
  ultimately show ?thesis by (simp add: floor_eq_iff)
qed

lemma toFixed_near_zero:
  assumes "0 \<le> q" and "q < 1 / 200"
  shows "toFixed nts (Fin q) = ''0.00''"
proof -
  have "\<not> 10 ^ 21 \<le> \<bar>q\<bar>" using assms by simp
  then show ?thesis
    using assms floor_near_zero [OF assms]
    by (simp add: toFixed_def Let_def digits_small digit_def)
qed

text \<open>
  \<open>toFixed(2)\<close> rounds, a half going up in magnitude, and depends on a finite number
  below \<open>10^21\<close> only through its sign and the hundredths it rounds to.
\<close>

lemma toFixed_tie: "toFixed nts (Fin (1 / 8)) = ''0.13''"
  by (simp add: toFixed_eval)

lemma toFixed_boundary: "toFixed nts (Fin (1 / 200)) = ''0.01''"
  by (simp add: toFixed_eval)

lemma toFixed_same_hundredths:
  assumes "\<bar>p\<bar> < 10 ^ 21" and "\<bar>q\<bar> < 10 ^ 21"
      and "roundedHundredths p = roundedHundredths q" and "p < 0 \<longleftrightarrow> q < 0"
  shows "toFixed nts (Fin p) = toFixed nts (Fin q)"
proof (cases "p < 0")
  case True
  with assms(4) have q: "q < 0" by simp
  from assms(3) True q have "\<lfloor>\<bar>p\<bar> * 100 + 1 / 2\<rfloor> = \<lfloor>\<bar>q\<bar> * 100 + 1 / 2\<rfloor>"
    by (simp add: roundedHundredths_def abs_if)
  with assms(1,2) True q show ?thesis
    by (simp add: toFixed_def Let_def)
next
  case False
  with assms(4) have q: "\<not> q < 0" by simp
  from assms(3) False q have "\<lfloor>\<bar>p\<bar> * 100 + 1 / 2\<rfloor> = \<lfloor>\<bar>q\<bar> * 100 + 1 / 2\<rfloor>"
    by (simp add: roundedHundredths_def abs_if)
  with assms(1,2) False q show ?thesis
    by (simp add: toFixed_def Let_def)
qed

lemma sameTwoDecimals_toFixed:
  assumes "sameTwoDecimals a b"
  shows "toFixed nts a = toFixed nts b"
proof -
  from assms obtain p q where "a = Fin p" "b = Fin q"
    "\<bar>p\<bar> < 10 ^ 21" "\<bar>q\<bar> < 10 ^ 21"
    "roundedHundredths p = roundedHundredths q" "p < 0 \<longleftrightarrow> q < 0"
    by (auto simp: sameTwoDecimals_def split: jsnum.splits)
  then show ?thesis using toFixed_same_hundredths [of p q nts] by simp
qed

lemma toFixed_negative:
  assumes "\<bar>q\<bar> < 10 ^ 21" and "q < 0"
  shows "\<exists>r. toFixed nts (Fin q) = CHR ''-'' # r"
  using assms by (simp add: toFixed_def Let_def)

lemma key_not_origin:
  assumes "\<bar>a\<bar> < 10 ^ 21" and "\<bar>b\<bar> < 10 ^ 21" and "a < 0 \<or> b < 0"
  shows "getCacheKey nts (JNum (Fin a)) (JNum (Fin b)) \<noteq> Inr ''0.00,0.00''"
proof
  assume "getCacheKey nts (JNum (Fin a)) (JNum (Fin b)) = Inr ''0.00,0.00''"
  then have k: "toFixed nts (Fin a) @ CHR '','' # toFixed nts (Fin b)
      = ''0.00'' @ CHR '','' # ''0.00''"
    by (simp add: getCacheKey_numbers)
  have c: "CHR '','' \<notin> set ''0.00''" by simp
  note e0 = iffD1 [OF append_Cons_eq_iff [OF c c] k [symmetric]]
  note e = e0 [THEN conjunct1, symmetric] e0 [THEN conjunct2, symmetric]
  from assms(3) show False
  proof
    assume "a < 0"
    from toFixed_negative [OF assms(1) this, of nts] show False by (simp add: e(1))
  next
    assume "b < 0"
    from toFixed_negative [OF assms(2) this, of nts] show False by (simp add: e(2))
  qed
qed

lemma getWeatherData_changed:
  assumes "getWeatherData nts svc w latv lonv = (r, svc1, tr)" and "svc1 \<noteq> svc"
  shows "\<exists>rawData snap.
           respond w (Get (baseURL svc @ ''/coords'') [(''lat'', latv), (''lon'', lonv)]) = Inr rawData
         \<and> transformWeatherData (now_transform w) rawData = Inr snap \<and> r = Inr snap"
  using assms
  by (auto simp: getWeatherData_def Let_def bindE_def
      split: sum.splits option.splits if_splits)

lemma getWeatherByZip_changed:
  assumes "getWeatherByZip nts svc w zipCode = (r, svc1, tr)" and "svc1 \<noteq> svc"
  shows "\<exists>rawData snap.
           respond w (Get (baseURL svc @ ''/zip'') [(''zip'', zipCode)]) = Inr rawData
         \<and> transformWeatherData (now_transform w) rawData = Inr snap \<and> r = Inr snap"
  using assms
  by (auto simp: getWeatherByZip_def Let_def bindE_def split: sum.splits prod.splits)

lemma getWeatherByZip_rejected:
  assumes "respond w (Get (baseURL svc @ ''/zip'') [(''zip'', zipCode)]) = Inl e"
  shows "getWeatherByZip nts svc w zipCode =
           (Inl (Error (getErrorMessage e)), svc, [Get (baseURL svc @ ''/zip'') [(''zip'', zipCode)]])"
  using assms by (simp add: getWeatherByZip_def Let_def)

lemma constructor_cacheTimeout: "cacheTimeout (constructor env) = 10 * 60 * 1000"
  by (simp add: constructor_def)

lemma getWeatherData_config:
  assumes "getWeatherData nts svc w latv lonv = (r, svc1, tr)"
  shows "cacheTimeout svc1 = cacheTimeout svc \<and> baseURL svc1 = baseURL svc"
  using assms
  by (auto simp: getWeatherData_def Let_def split: sum.splits option.splits if_splits)

lemma getWeatherByZip_config:
  assumes "getWeatherByZip nts svc w zipCode = (r, svc1, tr)"
  shows "cacheTimeout svc1 = cacheTimeout svc \<and> baseURL svc1 = baseURL svc"
  using assms
  by (auto simp: getWeatherByZip_def Let_def split: sum.splits prod.splits)

text \<open>
  The sign is printed before the rounding: a small negative coordinate is formatted as
  \<open>-0.00\<close>, which is not the key part \<open>0.00\<close> of a small positive one.
\<close>

lemma toFixed_small_negative: "toFixed nts (Fin (- 1 / 1024)) = ''-0.00''"
  by (simp add: toFixed_eval)

lemmas lookup_eval =
  getWeatherByCoords_def getWeatherData_def getWeatherByZip_def getCacheKey_def
  callToFixed_def isCacheValid_def constructor_def exampleWorld_def Let_def
  getErrorMessage_def

section \<open>Normalization: C2 and C4\<close>

text \<open>
  C2, as stated, fails: the normalization reads \<open>rawData.location\<close> with a plain
  property access, so on \<open>null\<close> it throws a \<open>TypeError\<close> instead of producing a
  snapshot.
\<close>

theorem transformWeatherData_null_throws: "transformWeatherData 0 JNull = Inl TypeError"
  by (simp add: transform_eval)

text \<open>
  C2, amended. The normalization returns a snapshot exactly when the raw input is neither
  \<open>null\<close> nor \<open>undefined\<close> and its \<open>hourly\<close> and \<open>daily\<close> are each absent, \<open>null\<close>
  or an array without \<open>null\<close> or \<open>undefined\<close> elements; on every other input it throws
  a \<open>TypeError\<close>. In a returned snapshot, at every nesting level, a field that has a
  default holds the raw value when that is truthy and the default otherwise (so the
  default when the field, or the object holding it, is absent): every field of
  \<open>location\<close> and \<open>current\<close>, and \<open>precipitation\<close>, \<open>windSpeed\<close> and (daily)
  \<open>humidity\<close> of every forecast point. An absent or \<open>null\<close> \<open>hourly\<close> or \<open>daily\<close>
  gives the empty sequence; an array gives one point for each element, in order, whose
  other fields are the raw values as they are, \<open>undefined\<close> when absent.
\<close>

theorem transformWeatherData_total_on_objects:
  "((\<exists>s. transformWeatherData now rawData = Inr s) \<longleftrightarrow>
      \<not> nullish rawData \<and> forecastOk (member rawData ''hourly'')
        \<and> forecastOk (member rawData ''daily''))
   \<and> (\<forall>e. transformWeatherData now rawData = Inl e \<longrightarrow> e = TypeError)
   \<and> (\<forall>s. transformWeatherData now rawData = Inr s \<longrightarrow>
         (\<forall>(k, sel, d) \<in> set locationDefaults.
            sel (location s) = orElse (member (member rawData ''location'') k) d)
       \<and> (\<forall>(k, sel, d) \<in> set (currentDefaults now).
            sel (current s) = orElse (member (member rawData ''current'') k) d)
       \<and> (nullish (member rawData ''hourly'') \<longrightarrow> hourly s = [])
       \<and> (nullish (member rawData ''daily'') \<longrightarrow> daily s = [])
       \<and> (\<forall>xs. member rawData ''hourly'' = JArr xs \<longrightarrow>
             length (hourly s) = length xs
           \<and> (\<forall>i<length xs. \<forall>(k, sel, d) \<in> set hourlyFields.
                  sel (hourly s ! i) = pointField (xs ! i) k d))
       \<and> (\<forall>xs. member rawData ''daily'' = JArr xs \<longrightarrow>
             length (daily s) = length xs
           \<and> (\<forall>i<length xs. \<forall>(k, sel, d) \<in> set dailyFields.
                  sel (daily s ! i) = pointField (xs ! i) k d)))"
proof (intro conjI allI impI)
  show "(\<exists>s. transformWeatherData now rawData = Inr s) \<longleftrightarrow>
      \<not> nullish rawData \<and> forecastOk (member rawData ''hourly'')
        \<and> forecastOk (member rawData ''daily'')"
    by (rule transform_succeeds_iff)
next
  fix e assume "transformWeatherData now rawData = Inl e"
  then show "e = TypeError" by (rule transform_error)
next
  fix s assume s: "transformWeatherData now rawData = Inr s"
  show "\<forall>(k, sel, d) \<in> set locationDefaults.
            sel (location s) = orElse (member (member rawData ''location'') k) d"
    by (rule transform_fields(1) [OF s])
  show "\<forall>(k, sel, d) \<in> set (currentDefaults now).
            sel (current s) = orElse (member (member rawData ''current'') k) d"
    by (rule transform_fields(2) [OF s])
  show "hourly s = []" if "nullish (member rawData ''hourly'')"
    using transform_fields(3) [OF s] that by blast
  show "daily s = []" if "nullish (member rawData ''daily'')"
    using transform_fields(4) [OF s] that by blast
  show "length (hourly s) = length xs" if "member rawData ''hourly'' = JArr xs" for xs
    using transform_points(1) [OF s] that by blast
  show "\<forall>(k, sel, d) \<in> set hourlyFields. sel (hourly s ! i) = pointField (xs ! i) k d"
    if "member rawData ''hourly'' = JArr xs" "i < length xs" for xs i
    using transform_points(1) [OF s] that by blast
  show "length (daily s) = length xs" if "member rawData ''daily'' = JArr xs" for xs
    using transform_points(2) [OF s] that by blast
  show "\<forall>(k, sel, d) \<in> set dailyFields. sel (daily s ! i) = pointField (xs ! i) k d"
    if "member rawData ''daily'' = JArr xs" "i < length xs" for xs i
    using transform_points(2) [OF s] that by blast
qed

text \<open>
  The theorem at a payload with \<open>current.temperature\<close>, two hourly elements (an object
  with only \<open>time\<close>, and a string) and one daily element with only \<open>humidity\<close>: a
  snapshot is returned, it keeps what is set and has the defaults elsewhere, in the
  forecast points too.
\<close>

theorem transformWeatherData_total_on_objects_witness:
  "\<not> nullish (JObj [(''current'', JObj [(''temperature'', JNum (Fin 21))]),
                     (''hourly'', JArr [JObj [(''time'', JNum (Fin 5))], JStr ''x'']),
                     (''daily'', JArr [JObj [(''humidity'', JNum (Fin 40))]])])
   \<and> forecastOk (JArr [JObj [(''time'', JNum (Fin 5))], JStr ''x''])
   \<and> forecastOk (JArr [JObj [(''humidity'', JNum (Fin 40))]])
   \<and> (\<exists>s. transformWeatherData 1000
              (JObj [(''current'', JObj [(''temperature'', JNum (Fin 21))]),
                     (''hourly'', JArr [JObj [(''time'', JNum (Fin 5))], JStr ''x'']),
                     (''daily'', JArr [JObj [(''humidity'', JNum (Fin 40))]])]) = Inr s
          \<and> weather_current.temperature (current s) = JNum (Fin 21)
          \<and> weather_current.humidity (current s) = JNum (Fin 0)
          \<and> weather_current.timestamp (current s) = JNum (Fin 1000)
          \<and> weather_location.name (location s) = JStr ''Unknown Location''
          \<and> length (hourly s) = 2
          \<and> hourly_point.time (hourly s ! 0) = JNum (Fin 5)
          \<and> hourly_point.precipitation (hourly s ! 0) = JNum (Fin 0)
          \<and> hourly_point.temperature (hourly s ! 0) = JUndefined
          \<and> hourly_point.windSpeed (hourly s ! 1) = JNum (Fin 0)
          \<and> length (daily s) = 1
          \<and> daily_point.humidity (daily s ! 0) = JNum (Fin 40)
          \<and> daily_point.precipitation (daily s ! 0) = JNum (Fin 0)
          \<and> daily_point.date (daily s ! 0) = JUndefined)"
proof -
  let ?hs = "[JObj [(''time'', JNum (Fin 5))], JStr ''x'']"
  let ?ds = "[JObj [(''humidity'', JNum (Fin 40))]]"
  let ?raw = "JObj [(''current'', JObj [(''temperature'', JNum (Fin 21))]),
                     (''hourly'', JArr ?hs), (''daily'', JArr ?ds)]"
  note t = transformWeatherData_total_on_objects [of 1000 ?raw]
  have mh: "member ?raw ''hourly'' = JArr ?hs" and md: "member ?raw ''daily'' = JArr ?ds"
    by (simp_all add: member_def getProp_def)
  have pre: "\<not> nullish ?raw \<and> forecastOk (JArr ?hs) \<and> forecastOk (JArr ?ds)"
    by (simp add: nullish_def forecastOk_def)
  then have "\<not> nullish ?raw \<and> forecastOk (member ?raw ''hourly'')
      \<and> forecastOk (member ?raw ''daily'')"
    unfolding mh md .
  with t [THEN conjunct1] obtain s where s: "transformWeatherData 1000 ?raw = Inr s"
    by blast
  note f = t [THEN conjunct2, THEN conjunct2, THEN spec, THEN mp, OF s]
  note loc = f [THEN conjunct1]
  note cur = f [THEN conjunct2, THEN conjunct1]
  note hp = f [THEN conjunct2, THEN conjunct2, THEN conjunct2, THEN conjunct2, THEN conjunct1,
      THEN spec, THEN mp, OF mh]
  note dp = f [THEN conjunct2, THEN conjunct2, THEN conjunct2, THEN conjunct2, THEN conjunct2,
      THEN spec, THEN mp, OF md]
  note hl = hp [THEN conjunct1]
  note dl = dp [THEN conjunct1]
  from cur have c: "weather_current.temperature (current s) = JNum (Fin 21)"
      "weather_current.humidity (current s) = JNum (Fin 0)"
      "weather_current.timestamp (current s) = JNum (Fin 1000)"
    by (simp_all add: currentDefaults_def member_def getProp_def orElse_def truthy_def)
  from loc have l: "weather_location.name (location s) = JStr ''Unknown Location''"
    by (simp add: locationDefaults_def member_def getProp_def orElse_def truthy_def)
  have i0: "0 < length ?hs" and i1: "1 < length ?hs" and j0: "0 < length ?ds" by simp_all
  note h0 = hp [THEN conjunct2, THEN spec, THEN mp, OF i0]
  note h1 = hp [THEN conjunct2, THEN spec, THEN mp, OF i1]
  note d0 = dp [THEN conjunct2, THEN spec, THEN mp, OF j0]
  from h0 have h: "hourly_point.time (hourly s ! 0) = JNum (Fin 5)"
      "hourly_point.precipitation (hourly s ! 0) = JNum (Fin 0)"
      "hourly_point.temperature (hourly s ! 0) = JUndefined"
    by (simp_all add: hourlyFields_def pointField_def member_def getProp_def orElse_def
        truthy_def)
  from h1 have h': "hourly_point.windSpeed (hourly s ! 1) = JNum (Fin 0)"
    by (simp add: hourlyFields_def pointField_def member_def getProp_def orElse_def
        truthy_def)
  from d0 have d: "daily_point.humidity (daily s ! 0) = JNum (Fin 40)"
      "daily_point.precipitation (daily s ! 0) = JNum (Fin 0)"
      "daily_point.date (daily s ! 0) = JUndefined"
    by (simp_all add: dailyFields_def pointField_def member_def getProp_def orElse_def
        truthy_def)
  from hl dl have n: "length (hourly s) = 2" "length (daily s) = 1" by simp_all
  from pre s c l n h h' d show ?thesis by blast
qed

text \<open>
  C4, as stated, fails: \<open>current.timestamp\<close> is a numeric field and its default is the
  value of \<open>Date.now()\<close>, not 0.
\<close>

theorem transformWeatherData_empty_timestamp_not_zero:
  "weather_current.timestamp (current (projr (transformWeatherData 1700000000000 (JObj []))))
     \<noteq> JNum (Fin 0)"
  by (simp add: transform_eval)

text \<open>
  C4, amended. On the empty object the normalization does not fail and returns the
  snapshot in which every numeric field is 0 except \<open>current.timestamp\<close>, which is
  the value of \<open>Date.now()\<close>; every string field is its placeholder; \<open>hourly\<close> and
  \<open>daily\<close> are empty.
\<close>

theorem transformWeatherData_empty_object:
  "transformWeatherData now (JObj []) =
     Inr \<lparr> location =
             \<lparr> weather_location.name = JStr ''Unknown Location'',
               weather_location.lat = JNum (Fin 0),
               weather_location.lon = JNum (Fin 0),
               weather_location.country = JStr [],
               weather_location.timezone = JStr ''UTC'' \<rparr>,
           current =
             \<lparr> weather_current.temperature = JNum (Fin 0),
               weather_current.feelsLike = JNum (Fin 0),
               weather_current.humidity = JNum (Fin 0),
               weather_current.pressure = JNum (Fin 0),
               weather_current.windSpeed = JNum (Fin 0),
               weather_current.windDirection = JNum (Fin 0),
               weather_current.visibility = JNum (Fin 0),
               weather_current.uvIndex = JNum (Fin 0),
               weather_current.condition = JStr ''clear'',
               weather_current.description = JStr ''Clear sky'',
               weather_current.icon = JStr ''01d'',
               weather_current.timestamp = JNum (Fin (of_int now)) \<rparr>,
           hourly = [],
           daily = [] \<rparr>"
  by (simp add: transform_eval)

section \<open>Caching of coordinate lookups: C1, C7, C8\<close>

text \<open>
  C1, as stated, fails: the latitudes \<open>1/1024\<close> and \<open>-1/1024\<close> round to the same
  2-decimal value, 0, but \<open>toFixed(2)\<close> formats them as \<open>0.00\<close> and \<open>-0.00\<close>. After a
  lookup for \<open>(1/1024, 10)\<close> on a fresh service has stored its result, a lookup for
  \<open>(-1/1024, 10)\<close> one millisecond later issues a request.
\<close>

theorem coords_lookup_sign_of_zero_misses:
  "roundedHundredths (1 / 1024) = roundedHundredths (- 1 / 1024)
   \<and> roundedHundredths 10 = roundedHundredths 10
   \<and> getWeatherByCoords (\<lambda>_. []) (constructor None) (exampleWorld 1000 (Inr (JObj [])))
        (JNum (Fin (1 / 1024))) (JNum (Fin 10))
       = (Inr (projr (transformWeatherData 1000 (JObj []))),
          (constructor None)\<lparr>cache := [''0.00,10.00'' \<mapsto>
             \<lparr>data = projr (transformWeatherData 1000 (JObj [])), timestamp = 1000\<rparr>]\<rparr>,
          [Get ''/api/weather/coords'' [(''lat'', JNum (Fin (1 / 1024))), (''lon'', JNum (Fin 10))]])
   \<and> now_check (exampleWorld 1001 (Inr (JObj []))) - 1000 < 10 * 60 * 1000
   \<and> snd (snd (getWeatherByCoords (\<lambda>_. [])
         ((constructor None)\<lparr>cache := [''0.00,10.00'' \<mapsto>
             \<lparr>data = projr (transformWeatherData 1000 (JObj [])), timestamp = 1000\<rparr>]\<rparr>)
         (exampleWorld 1001 (Inr (JObj [])))
         (JNum (Fin (- 1 / 1024))) (JNum (Fin 10))))
       = [Get ''/api/weather/coords''
            [(''lat'', JNum (Fin (- 1 / 1024))), (''lon'', JNum (Fin 10))]]"
  by (simp add: roundedHundredths_def lookup_eval toFixed_eval transform_eval)

text \<open>
  C1, amended. Let two coordinate pairs have latitudes that \<open>toFixed(2)\<close> formats to
  the same string, and longitudes likewise; this is so, in particular, for finite
  numbers below \<open>10^21\<close> in magnitude that round to the same 2-decimal value and are
  both negative or both not negative. After a successful \<open>getWeatherByCoords\<close> for the
  first pair, on a service with the 10-minute TTL, the cache holds an entry with the
  returned data under their key (time-stamped with the clock value of the write when
  the call went to the network); every call for the second pair at which the entry's
  age is under the TTL returns that data, leaves the service as it is and issues no
  request.
\<close>

theorem coords_lookup_cached_within_ttl:
  assumes "getWeatherByCoords nts svc w1 (JNum a1) (JNum b1) = (Inr snap, svc1, tr1)"
      and "toFixed nts a2 = toFixed nts a1 \<or> sameTwoDecimals a1 a2"
      and "toFixed nts b2 = toFixed nts b1 \<or> sameTwoDecimals b1 b2"
      and "cacheTimeout svc = 10 * 60 * 1000"
  shows "\<exists>c. cache svc1 (toFixed nts a1 @ '','' @ toFixed nts b1) = Some c \<and> data c = snap
           \<and> (tr1 \<noteq> [] \<longrightarrow> cache_entry.timestamp c = now_store w1)
           \<and> (\<forall>w2. now_check w2 - cache_entry.timestamp c < 10 * 60 * 1000 \<longrightarrow>
                 getWeatherByCoords nts svc1 w2 (JNum a2) (JNum b2) = (Inr snap, svc1, []))"
proof -
  let ?k = "toFixed nts a1 @ '','' @ toFixed nts b1"
  have ta: "toFixed nts a2 = toFixed nts a1"
    using assms(2) sameTwoDecimals_toFixed [of a1 a2 nts] by auto
  have tb: "toFixed nts b2 = toFixed nts b1"
    using assms(3) sameTwoDecimals_toFixed [of b1 b2 nts] by auto
  have k1: "getCacheKey nts (JNum a1) (JNum b1) = Inr ?k" by (rule getCacheKey_numbers)
  have k2: "getCacheKey nts (JNum a2) (JNum b2) = Inr ?k"
    using ta tb by (simp add: getCacheKey_numbers)
  from assms(1) have "getWeatherData nts svc w1 (JNum a1) (JNum b1) = (Inr snap, svc1, tr1)"
    by (simp add: getWeatherByCoords_def)
  from getWeatherData_success [OF this k1] obtain c where
    c: "cache svc1 ?k = Some c" "data c = snap"
       "tr1 \<noteq> [] \<longrightarrow> cache_entry.timestamp c = now_store w1"
       "cacheTimeout svc1 = cacheTimeout svc"
    by blast
  have "getWeatherByCoords nts svc1 w2 (JNum a2) (JNum b2) = (Inr snap, svc1, [])"
    if "now_check w2 - cache_entry.timestamp c < 10 * 60 * 1000" for w2
  proof -
    from that c(4) assms(4) have "isCacheValid svc1 (now_check w2) c"
      by (simp add: isCacheValid_def)
    from getWeatherData_hit [OF k2 c(1) this] c(2) show ?thesis
      by (simp add: getWeatherByCoords_def)
  qed
  with c show ?thesis by blast
qed

text \<open>
  The theorem at \<open>(40.75, -74)\<close>, fetched at time 1000 on a fresh service, and
  \<open>(40.748046875, -73.998046875)\<close>, which round up in magnitude to the same
  hundredths, looked up 599999 ms later in a world whose network is down.
\<close>

theorem coords_lookup_cached_within_ttl_witness:
  "(let nts = (\<lambda>_. []);
        r = getWeatherByCoords nts (constructor None) (exampleWorld 1000 (Inr (JObj [])))
              (JNum (Fin (163 / 4))) (JNum (Fin (- 74)))
    in snd (snd r) \<noteq> []
     \<and> sameTwoDecimals (Fin (163 / 4)) (Fin (40 + 383 / 512))
     \<and> sameTwoDecimals (Fin (- 74)) (Fin (- 74 + 1 / 512))
     \<and> toFixed nts (Fin (40 + 383 / 512)) = ''40.75''
     \<and> toFixed nts (Fin (- 74 + 1 / 512)) = ''-74.00''
     \<and> cacheTimeout (constructor None) = 10 * 60 * 1000
     \<and> getWeatherByCoords nts (fst (snd r)) (exampleWorld 600999 (Inl NoResponse))
           (JNum (Fin (40 + 383 / 512))) (JNum (Fin (- 74 + 1 / 512)))
         = (fst r, fst (snd r), []))"
proof -
  let ?nts = "\<lambda>_::rat. []"
  let ?r = "getWeatherByCoords ?nts (constructor None) (exampleWorld 1000 (Inr (JObj [])))
              (JNum (Fin (163 / 4))) (JNum (Fin (- 74)))"
  let ?snap = "projr (transformWeatherData 1000 (JObj []))"
  let ?svc1 = "(constructor None)\<lparr>cache := [''40.75,-74.00'' \<mapsto> \<lparr>data = ?snap, timestamp = 1000\<rparr>]\<rparr>"
  let ?req = "Get ''/api/weather/coords'' [(''lat'', JNum (Fin (163 / 4))), (''lon'', JNum (Fin (- 74)))]"
  have r: "?r = (Inr ?snap, ?svc1, [?req])"
    by (simp add: lookup_eval toFixed_eval transform_eval)
  have s1: "sameTwoDecimals (Fin (163 / 4)) (Fin (40 + 383 / 512))"
    by (simp add: sameTwoDecimals_def roundedHundredths_def floor_rat_numeral)
  have s2: "sameTwoDecimals (Fin (- 74)) (Fin (- 74 + 1 / 512))"
    by (simp add: sameTwoDecimals_def roundedHundredths_def floor_rat_numeral)
  have f1: "toFixed ?nts (Fin (40 + 383 / 512)) = ''40.75''"
    by (simp add: toFixed_eval)
  have f2: "toFixed ?nts (Fin (- 74 + 1 / 512)) = ''-74.00''"
    by (simp add: toFixed_eval)
  have ttl: "cacheTimeout (constructor None) = 10 * 60 * 1000"
    by (simp add: constructor_def)
  from coords_lookup_cached_within_ttl [OF r disjI2 [OF s1] disjI2 [OF s2] ttl] obtain c :: cache_entry where
    c: "[?req] \<noteq> [] \<longrightarrow>
          cache_entry.timestamp c = now_store (exampleWorld 1000 (Inr (JObj [])))"
    and h: "\<forall>w2. now_check w2 - cache_entry.timestamp c < 10 * 60 * 1000 \<longrightarrow>
            getWeatherByCoords ?nts ?svc1 w2 (JNum (Fin (40 + 383 / 512)))
              (JNum (Fin (- 74 + 1 / 512))) = (Inr ?snap, ?svc1, [])"
    by blast
  from c have ts: "cache_entry.timestamp c = 1000"
    by (simp add: exampleWorld_def)
  have "now_check (exampleWorld 600999 (Inl NoResponse)) - cache_entry.timestamp c
          < 10 * 60 * 1000"
    by (simp add: ts exampleWorld_def)
  with h have g: "getWeatherByCoords ?nts ?svc1 (exampleWorld 600999 (Inl NoResponse))
      (JNum (Fin (40 + 383 / 512))) (JNum (Fin (- 74 + 1 / 512))) = (Inr ?snap, ?svc1, [])"
    by blast
  show ?thesis
    unfolding Let_def r
  proof (intro conjI)
    show "snd (snd (Inr ?snap, ?svc1, [?req])) \<noteq> []" by simp
    show "sameTwoDecimals (Fin (163 / 4)) (Fin (40 + 383 / 512))" by (rule s1)
    show "sameTwoDecimals (Fin (- 74)) (Fin (- 74 + 1 / 512))" by (rule s2)
    show "toFixed ?nts (Fin (40 + 383 / 512)) = ''40.75''" by (rule f1)
    show "toFixed ?nts (Fin (- 74 + 1 / 512)) = ''-74.00''" by (rule f2)
    show "cacheTimeout (constructor None) = 10 * 60 * 1000" by (rule ttl)
    show "getWeatherByCoords ?nts (fst (snd (Inr ?snap, ?svc1, [?req])))
        (exampleWorld 600999 (Inl NoResponse))
        (JNum (Fin (40 + 383 / 512))) (JNum (Fin (- 74 + 1 / 512)))
      = (fst (Inr ?snap, ?svc1, [?req]), fst (snd (Inr ?snap, ?svc1, [?req])), [])"
      using g by simp
  qed
qed

text \<open>
  C7. When the key of a coordinate pair is in the cache and the clock is at least the
  10-minute TTL past the entry's time stamp, \<open>getWeatherByCoords\<close> issues the GET to
  \<open>{baseURL}/coords\<close>, and what it returns is what the network and the normalization
  give, not the cached data.
\<close>

theorem coords_lookup_refetches_after_ttl:
  assumes "getCacheKey nts latv lonv = Inr k"
      and "cache svc k = Some c"
      and "cacheTimeout svc = 10 * 60 * 1000"
      and "10 * 60 * 1000 \<le> now_check w - cache_entry.timestamp c"
  shows "snd (snd (getWeatherByCoords nts svc w latv lonv)) =
           [Get (baseURL svc @ ''/coords'') [(''lat'', latv), (''lon'', lonv)]]
       \<and> fst (getWeatherByCoords nts svc w latv lonv) =
           (case bindE (respond w (Get (baseURL svc @ ''/coords'') [(''lat'', latv), (''lon'', lonv)]))
                   (transformWeatherData (now_transform w)) of
              Inr weatherData \<Rightarrow> Inr weatherData
            | Inl error \<Rightarrow> Inl (Error (getErrorMessage error)))"
proof -
  have "\<forall>c. cache svc k = Some c \<longrightarrow> \<not> isCacheValid svc (now_check w) c"
    using assms(2-4) by (simp add: isCacheValid_def)
  from getWeatherData_miss [OF assms(1) this] show ?thesis
    by (simp add: getWeatherByCoords_def split: sum.splits)
qed

text \<open>
  The theorem at an entry stored at time 1000 and a lookup at time 601000.
\<close>

theorem coords_lookup_refetches_after_ttl_witness:
  "getCacheKey (\<lambda>_. []) (JNum (Fin (163 / 4))) (JNum (Fin (- 74))) = Inr ''40.75,-74.00''
   \<and> cache ((constructor None)\<lparr>cache := [''40.75,-74.00'' \<mapsto>
         \<lparr>data = projr (transformWeatherData 1000 (JObj [])), timestamp = 1000\<rparr>]\<rparr>)
        ''40.75,-74.00''
       = Some \<lparr>data = projr (transformWeatherData 1000 (JObj [])), timestamp = 1000\<rparr>
   \<and> snd (snd (getWeatherByCoords (\<lambda>_. [])
         ((constructor None)\<lparr>cache := [''40.75,-74.00'' \<mapsto>
            \<lparr>data = projr (transformWeatherData 1000 (JObj [])), timestamp = 1000\<rparr>]\<rparr>)
         (exampleWorld 601000 (Inl NoResponse))
         (JNum (Fin (163 / 4))) (JNum (Fin (- 74)))))
       = [Get ''/api/weather/coords''
            [(''lat'', JNum (Fin (163 / 4))), (''lon'', JNum (Fin (- 74)))]]"
proof -
  let ?e = "\<lparr>data = projr (transformWeatherData 1000 (JObj [])), timestamp = 1000\<rparr>"
  let ?svc = "(constructor None)\<lparr>cache := [''40.75,-74.00'' \<mapsto> ?e]\<rparr>"
  have k: "getCacheKey (\<lambda>_. []) (JNum (Fin (163 / 4))) (JNum (Fin (- 74))) = Inr ''40.75,-74.00''"
    by (simp add: getCacheKey_def callToFixed_def toFixed_eval)
  have c: "cache ?svc ''40.75,-74.00'' = Some ?e" by simp
  have ttl: "cacheTimeout ?svc = 10 * 60 * 1000" by (simp add: constructor_def)
  have age: "10 * 60 * 1000 \<le> now_check (exampleWorld 601000 (Inl NoResponse))
      - cache_entry.timestamp ?e"
    by (simp add: exampleWorld_def)
  from coords_lookup_refetches_after_ttl [OF k c ttl age] k c show ?thesis
    by (simp add: constructor_def)
qed

text \<open>
  C8. \<open>clearCache\<close> empties the cache and leaves \<open>baseURL\<close> and the TTL as they
  are; after it, a lookup for any pair of numbers issues the GET to \<open>{baseURL}/coords\<close>
  and a ZIP lookup the GET to \<open>{baseURL}/zip\<close>.
\<close>

theorem clearCache_empties_cache_only:
  "cache (clearCache svc) = Map.empty
   \<and> baseURL (clearCache svc) = baseURL svc
   \<and> cacheTimeout (clearCache svc) = cacheTimeout svc
   \<and> snd (snd (getWeatherByCoords nts (clearCache svc) w (JNum a) (JNum b))) =
        [Get (baseURL svc @ ''/coords'') [(''lat'', JNum a), (''lon'', JNum b)]]
   \<and> snd (snd (getWeatherByZip nts (clearCache svc) w zipCode)) =
        [Get (baseURL svc @ ''/zip'') [(''zip'', zipCode)]]"
proof -
  have "\<forall>c. cache (clearCache svc) (toFixed nts a @ '','' @ toFixed nts b) = Some c
          \<longrightarrow> \<not> isCacheValid (clearCache svc) (now_check w) c"
    by (simp add: clearCache_def)
  from getWeatherData_miss [OF getCacheKey_numbers this]
  have "snd (snd (getWeatherByCoords nts (clearCache svc) w (JNum a) (JNum b))) =
        [Get (baseURL svc @ ''/coords'') [(''lat'', JNum a), (''lon'', JNum b)]]"
    by (simp add: getWeatherByCoords_def clearCache_def split: sum.splits)
  then show ?thesis
    by (simp add: getWeatherByZip_trace) (simp add: clearCache_def)
qed

section \<open>ZIP lookups: C5, C6, C10\<close>

text \<open>
  C6. Every \<open>getWeatherByZip\<close> issues exactly the GET to \<open>{baseURL}/zip\<close> with the
  ZIP as the parameter \<open>zip\<close>, whatever the cache holds; what it returns does not
  depend on the cache; and the same lookup repeated on the service it leaves behind
  issues the request again.
\<close>

theorem zip_lookup_always_requests:
  "snd (snd (getWeatherByZip nts svc w zipCode)) =
     [Get (baseURL svc @ ''/zip'') [(''zip'', zipCode)]]
   \<and> fst (getWeatherByZip nts (svc\<lparr>cache := m\<rparr>) w zipCode) =
       fst (getWeatherByZip nts svc w zipCode)
   \<and> snd (snd (getWeatherByZip nts (fst (snd (getWeatherByZip nts svc w zipCode))) w2 zipCode)) =
     [Get (baseURL svc @ ''/zip'') [(''zip'', zipCode)]]"
proof -
  have "baseURL (fst (snd (getWeatherByZip nts svc w zipCode))) = baseURL svc"
    by (simp add: getWeatherByZip_def Let_def split: sum.splits prod.splits)
  moreover have "fst (getWeatherByZip nts (svc\<lparr>cache := m\<rparr>) w zipCode) =
       fst (getWeatherByZip nts svc w zipCode)"
    by (simp add: getWeatherByZip_def Let_def split: sum.splits prod.splits)
  ultimately show ?thesis
    by (simp add: getWeatherByZip_trace)
qed

text \<open>
  C5. After a successful \<open>getWeatherByZip\<close>, on a service with the 10-minute TTL, a
  \<open>getWeatherByCoords\<close> for the latitude and longitude of the returned location, at a
  clock value less than the TTL after the write, returns the data of the ZIP lookup,
  leaves the service as it is and issues no request.
\<close>

theorem zip_then_coords_cached:
  assumes "getWeatherByZip nts svc w zipCode = (Inr snap, svc1, tr)"
      and "cacheTimeout svc = 10 * 60 * 1000"
      and "now_check w2 - now_store w < 10 * 60 * 1000"
  shows "getWeatherByCoords nts svc1 w2 (lat (location snap)) (lon (location snap))
           = (Inr snap, svc1, [])"
proof -
  from getWeatherByZip_success [OF assms(1)] obtain k where
    k: "getCacheKey nts (lat (location snap)) (lon (location snap)) = Inr k" and
    s: "svc1 = svc\<lparr>cache := (cache svc)(k \<mapsto> \<lparr>data = snap, timestamp = now_store w\<rparr>)\<rparr>"
    by blast
  have c: "cache svc1 k = Some \<lparr>data = snap, timestamp = now_store w\<rparr>"
    by (simp add: s)
  have "isCacheValid svc1 (now_check w2) \<lparr>data = snap, timestamp = now_store w\<rparr>"
    using assms(2,3) by (simp add: isCacheValid_def s)
  from getWeatherData_hit [OF k c this] show ?thesis
    by (simp add: getWeatherByCoords_def)
qed

text \<open>
  The theorem at a ZIP lookup answered with the location \<open>(40.75, -74)\<close>.
\<close>

theorem zip_then_coords_cached_witness:
  "(let nts = (\<lambda>_. []);
        r = getWeatherByZip nts (constructor None)
              (exampleWorld 1000 (Inr (JObj [(''location'',
                 JObj [(''lat'', JNum (Fin (163 / 4))), (''lon'', JNum (Fin (- 74)))])])))
              (JStr ''10001'')
    in \<not> isl (fst r)
     \<and> lat (location (projr (fst r))) = JNum (Fin (163 / 4))
     \<and> getWeatherByCoords nts (fst (snd r)) (exampleWorld 600999 (Inl NoResponse))
           (lat (location (projr (fst r)))) (lon (location (projr (fst r))))
         = (fst r, fst (snd r), []))"
proof -
  let ?nts = "\<lambda>_::rat. []"
  let ?raw = "JObj [(''location'',
                 JObj [(''lat'', JNum (Fin (163 / 4))), (''lon'', JNum (Fin (- 74)))])]"
  let ?w = "exampleWorld 1000 (Inr ?raw)"
  let ?r = "getWeatherByZip ?nts (constructor None) ?w (JStr ''10001'')"
  let ?snap = "projr (transformWeatherData 1000 ?raw)"
  let ?svc1 = "(constructor None)\<lparr>cache := [''40.75,-74.00'' \<mapsto> \<lparr>data = ?snap, timestamp = 1000\<rparr>]\<rparr>"
  have r: "?r = (Inr ?snap, ?svc1, [Get ''/api/weather/zip'' [(''zip'', JStr ''10001'')]])"
    by (simp add: lookup_eval toFixed_eval transform_eval)
  have l: "lat (location ?snap) = JNum (Fin (163 / 4))"
    by (simp add: transform_eval)
  have ttl: "cacheTimeout (constructor None) = 10 * 60 * 1000"
    by (simp add: constructor_def)
  have soon: "now_check (exampleWorld 600999 (Inl NoResponse)) - now_store ?w < 10 * 60 * 1000"
    by (simp add: exampleWorld_def)
  note g = zip_then_coords_cached [OF r ttl soon]
  show ?thesis
    unfolding Let_def r
  proof (intro conjI)
    show "\<not> isl (fst (Inr ?snap, ?svc1, [Get ''/api/weather/zip'' [(''zip'', JStr ''10001'')]]))"
      by simp
    show "lat (location (projr (fst (Inr ?snap, ?svc1,
        [Get ''/api/weather/zip'' [(''zip'', JStr ''10001'')]])))) = JNum (Fin (163 / 4))"
      using l by simp
    show "getWeatherByCoords ?nts
        (fst (snd (Inr ?snap, ?svc1, [Get ''/api/weather/zip'' [(''zip'', JStr ''10001'')]])))
        (exampleWorld 600999 (Inl NoResponse))
        (lat (location (projr (fst (Inr ?snap, ?svc1,
           [Get ''/api/weather/zip'' [(''zip'', JStr ''10001'')]])))))
        (lon (location (projr (fst (Inr ?snap, ?svc1,
           [Get ''/api/weather/zip'' [(''zip'', JStr ''10001'')]])))))
      = (fst (Inr ?snap, ?svc1, [Get ''/api/weather/zip'' [(''zip'', JStr ''10001'')]]),
         fst (snd (Inr ?snap, ?svc1, [Get ''/api/weather/zip'' [(''zip'', JStr ''10001'')]])),
         [])"
      using g by simp
  qed
qed

text \<open>
  C10, as stated, fails: after a ZIP lookup answered without coordinates has stored its
  result under \<open>0.00,0.00\<close> on a fresh service, a coordinate lookup for
  \<open>(-1/1024, 1/1024)\<close>, near \<open>(0, 0)\<close>, one millisecond later has the key
  \<open>-0.00,0.00\<close> and issues a request.
\<close>

theorem zip_without_coordinates_negative_neighbour_misses:
  "member (member (JObj []) ''location'') ''lat'' = JUndefined
   \<and> member (member (JObj []) ''location'') ''lon'' = JUndefined
   \<and> getWeatherByZip (\<lambda>_. []) (constructor None) (exampleWorld 1000 (Inr (JObj [])))
        (JStr ''10001'')
       = (Inr (projr (transformWeatherData 1000 (JObj []))),
          (constructor None)\<lparr>cache := [''0.00,0.00'' \<mapsto>
             \<lparr>data = projr (transformWeatherData 1000 (JObj [])), timestamp = 1000\<rparr>]\<rparr>,
          [Get ''/api/weather/zip'' [(''zip'', JStr ''10001'')]])
   \<and> now_check (exampleWorld 1001 (Inr (JObj []))) - 1000 < 10 * 60 * 1000
   \<and> snd (snd (getWeatherByCoords (\<lambda>_. [])
         ((constructor None)\<lparr>cache := [''0.00,0.00'' \<mapsto>
             \<lparr>data = projr (transformWeatherData 1000 (JObj [])), timestamp = 1000\<rparr>]\<rparr>)
         (exampleWorld 1001 (Inr (JObj [])))
         (JNum (Fin (- 1 / 1024))) (JNum (Fin (1 / 1024)))))
       = [Get ''/api/weather/coords''
            [(''lat'', JNum (Fin (- 1 / 1024))), (''lon'', JNum (Fin (1 / 1024)))]]"
  by (simp add: member_def getProp_def lookup_eval toFixed_eval transform_eval)

text \<open>
  C10, amended. When a successful ZIP lookup was answered with a payload that has no
  \<open>location.lat\<close> and no \<open>location.lon\<close>, the latitude and longitude of the result
  are 0 and the result is stored under the key \<open>0.00,0.00\<close>, replacing what was there
  (so all such lookups share that entry). A coordinate lookup whose key is
  \<open>0.00,0.00\<close>, at a clock value less than the TTL after the write, returns the stored
  result without a request. Every pair of numbers in \<open>[0, 0.005)\<close> has this key
  (\<open>0.005\<close> itself is formatted as \<open>0.01\<close>); a pair of finite numbers below \<open>10^21\<close>
  in magnitude one of which is negative, however small, does not, and when the cache
  held nothing before the ZIP lookup, a lookup for such a pair issues a request.
\<close>

theorem zip_without_coordinates_cached_at_origin:
  assumes "getWeatherByZip nts svc w zipCode = (Inr snap, svc1, tr)"
      and "respond w (Get (baseURL svc @ ''/zip'') [(''zip'', zipCode)]) = Inr rawData"
      and "member (member rawData ''location'') ''lat'' = JUndefined"
      and "member (member rawData ''location'') ''lon'' = JUndefined"
  shows "lat (location snap) = JNum (Fin 0) \<and> lon (location snap) = JNum (Fin 0)
       \<and> svc1 = svc\<lparr>cache := (cache svc)(''0.00,0.00'' \<mapsto>
                        \<lparr>data = snap, timestamp = now_store w\<rparr>)\<rparr>
       \<and> (\<forall>a b. 0 \<le> a \<and> a < 1 / 200 \<and> 0 \<le> b \<and> b < 1 / 200 \<longrightarrow>
             getCacheKey nts (JNum (Fin a)) (JNum (Fin b)) = Inr ''0.00,0.00'')
       \<and> (\<forall>w2 latv lonv.
             cacheTimeout svc = 10 * 60 * 1000
           \<and> now_check w2 - now_store w < 10 * 60 * 1000
           \<and> getCacheKey nts latv lonv = Inr ''0.00,0.00'' \<longrightarrow>
             getWeatherByCoords nts svc1 w2 latv lonv = (Inr snap, svc1, []))
       \<and> getCacheKey nts (JNum (Fin (1 / 200))) (JNum (Fin 0)) = Inr ''0.01,0.00''
       \<and> (\<forall>a b. \<bar>a\<bar> < 10 ^ 21 \<and> \<bar>b\<bar> < 10 ^ 21 \<and> (a < 0 \<or> b < 0) \<longrightarrow>
             getCacheKey nts (JNum (Fin a)) (JNum (Fin b)) \<noteq> Inr ''0.00,0.00'')
       \<and> (\<forall>w2 a b. cache svc = Map.empty
           \<and> \<bar>a\<bar> < 10 ^ 21 \<and> \<bar>b\<bar> < 10 ^ 21 \<and> (a < 0 \<or> b < 0) \<longrightarrow>
             snd (snd (getWeatherByCoords nts svc1 w2 (JNum (Fin a)) (JNum (Fin b)))) =
               [Get (baseURL svc @ ''/coords'') [(''lat'', JNum (Fin a)), (''lon'', JNum (Fin b))]])"
proof -
  from getWeatherByZip_success [OF assms(1)] assms(2) obtain k where
    t: "transformWeatherData (now_transform w) rawData = Inr snap" and
    k: "getCacheKey nts (lat (location snap)) (lon (location snap)) = Inr k" and
    s: "svc1 = svc\<lparr>cache := (cache svc)(k \<mapsto> \<lparr>data = snap, timestamp = now_store w\<rparr>)\<rparr>"
    by auto
  from transform_fields(1) [OF t] assms(3,4) have
    z: "lat (location snap) = JNum (Fin 0)" "lon (location snap) = JNum (Fin 0)"
    by (simp_all add: locationDefaults_def orElse_def truthy_def)
  have near: "getCacheKey nts (JNum (Fin a)) (JNum (Fin b)) = Inr ''0.00,0.00''"
    if "0 \<le> a" "a < 1 / 200" "0 \<le> b" "b < 1 / 200" for a b
    using that by (simp add: getCacheKey_numbers toFixed_near_zero)
  from k have k0: "k = ''0.00,0.00''"
    unfolding z using near [of 0 0] by simp
  have hit: "getWeatherByCoords nts svc1 w2 latv lonv = (Inr snap, svc1, [])"
    if "cacheTimeout svc = 10 * 60 * 1000" "now_check w2 - now_store w < 10 * 60 * 1000"
      "getCacheKey nts latv lonv = Inr ''0.00,0.00''" for w2 latv lonv
  proof -
    have c: "cache svc1 ''0.00,0.00'' = Some \<lparr>data = snap, timestamp = now_store w\<rparr>"
      by (simp add: s k0)
    have "isCacheValid svc1 (now_check w2) \<lparr>data = snap, timestamp = now_store w\<rparr>"
      using that(1,2) by (simp add: isCacheValid_def s)
    from getWeatherData_hit [OF that(3) c this] show ?thesis
      by (simp add: getWeatherByCoords_def)
  qed
  have edge: "getCacheKey nts (JNum (Fin (1 / 200))) (JNum (Fin 0)) = Inr ''0.01,0.00''"
    by (simp add: getCacheKey_numbers toFixed_eval)
  have miss: "snd (snd (getWeatherByCoords nts svc1 w2 (JNum (Fin a)) (JNum (Fin b)))) =
      [Get (baseURL svc @ ''/coords'') [(''lat'', JNum (Fin a)), (''lon'', JNum (Fin b))]]"
    if e: "cache svc = Map.empty" and ab: "\<bar>a\<bar> < 10 ^ 21" "\<bar>b\<bar> < 10 ^ 21" "a < 0 \<or> b < 0"
    for w2 a b
  proof -
    let ?k = "toFixed nts (Fin a) @ '','' @ toFixed nts (Fin b)"
    have kk: "getCacheKey nts (JNum (Fin a)) (JNum (Fin b)) = Inr ?k"
      by (rule getCacheKey_numbers)
    with key_not_origin [OF ab, of nts] have "?k \<noteq> ''0.00,0.00''" by simp
    then have "cache svc1 ?k = None" by (simp add: s k0 e)
    then have "\<forall>c. cache svc1 ?k = Some c \<longrightarrow> \<not> isCacheValid svc1 (now_check w2) c"
      by simp
    from getWeatherData_miss [OF kk this] show ?thesis
      by (simp add: getWeatherByCoords_def s split: sum.splits)
  qed
  show ?thesis
  proof (intro conjI allI impI)
    show "lat (location snap) = JNum (Fin 0)" "lon (location snap) = JNum (Fin 0)"
      by (rule z)+
    show "svc1 = svc\<lparr>cache := (cache svc)(''0.00,0.00'' \<mapsto>
                        \<lparr>data = snap, timestamp = now_store w\<rparr>)\<rparr>"
      using s k0 by simp
    show "getCacheKey nts (JNum (Fin a)) (JNum (Fin b)) = Inr ''0.00,0.00''"
      if "0 \<le> a \<and> a < 1 / 200 \<and> 0 \<le> b \<and> b < 1 / 200" for a b
      using that near by blast
    show "getWeatherByCoords nts svc1 w2 latv lonv = (Inr snap, svc1, [])"
      if "cacheTimeout svc = 10 * 60 * 1000
           \<and> now_check w2 - now_store w < 10 * 60 * 1000
           \<and> getCacheKey nts latv lonv = Inr ''0.00,0.00''" for w2 latv lonv
      using that hit by blast
    show "getCacheKey nts (JNum (Fin (1 / 200))) (JNum (Fin 0)) = Inr ''0.01,0.00''"
      by (rule edge)
    show "getCacheKey nts (JNum (Fin a)) (JNum (Fin b)) \<noteq> Inr ''0.00,0.00''"
      if "\<bar>a\<bar> < 10 ^ 21 \<and> \<bar>b\<bar> < 10 ^ 21 \<and> (a < 0 \<or> b < 0)" for a b
      using that key_not_origin [of a b nts] by blast
    show "snd (snd (getWeatherByCoords nts svc1 w2 (JNum (Fin a)) (JNum (Fin b)))) =
               [Get (baseURL svc @ ''/coords'') [(''lat'', JNum (Fin a)), (''lon'', JNum (Fin b))]]"
      if "cache svc = Map.empty
           \<and> \<bar>a\<bar> < 10 ^ 21 \<and> \<bar>b\<bar> < 10 ^ 21 \<and> (a < 0 \<or> b < 0)" for w2 a b
      using that miss by blast
  qed
qed

text \<open>
  The theorem at a payload with only \<open>location.name\<close> on a fresh service, followed by
  a lookup for \<open>(1/1024, -0)\<close>, which is answered from the cache, and one for
  \<open>(1/1024, -1/1024)\<close>, which goes to the network.
\<close>

theorem zip_without_coordinates_cached_at_origin_witness:
  "(let nts = (\<lambda>_. []);
        raw = JObj [(''location'', JObj [(''name'', JStr ''Nowhere'')])];
        r = getWeatherByZip nts (constructor None) (exampleWorld 1000 (Inr raw)) (JStr ''10001'')
    in \<not> isl (fst r)
     \<and> member (member raw ''location'') ''lat'' = JUndefined
     \<and> member (member raw ''location'') ''lon'' = JUndefined
     \<and> lat (location (projr (fst r))) = JNum (Fin 0)
     \<and> cache (fst (snd r)) ''0.00,0.00'' = Some \<lparr>data = projr (fst r), timestamp = 1000\<rparr>
     \<and> getWeatherByCoords nts (fst (snd r)) (exampleWorld 600999 (Inl NoResponse))
           (JNum (Fin (1 / 1024))) (JNum NegZero)
         = (fst r, fst (snd r), [])
     \<and> snd (snd (getWeatherByCoords nts (fst (snd r)) (exampleWorld 1001 (Inl NoResponse))
           (JNum (Fin (1 / 1024))) (JNum (Fin (- 1 / 1024)))))
         = [Get ''/api/weather/coords''
              [(''lat'', JNum (Fin (1 / 1024))), (''lon'', JNum (Fin (- 1 / 1024)))]])"
proof -
  let ?nts = "\<lambda>_::rat. []"
  let ?raw = "JObj [(''location'', JObj [(''name'', JStr ''Nowhere'')])]"
  let ?w = "exampleWorld 1000 (Inr ?raw)"
  let ?svc = "constructor None"
  let ?r = "getWeatherByZip ?nts ?svc ?w (JStr ''10001'')"
  let ?snap = "projr (fst ?r)"
  let ?svc1 = "fst (snd ?r)"
  let ?w2 = "exampleWorld 600999 (Inl NoResponse)"
  let ?w3 = "exampleWorld 1001 (Inl NoResponse)"
  have ok: "\<not> isl (fst ?r)"
    by (simp add: lookup_eval toFixed_eval transform_eval)
  then have r: "?r = (Inr ?snap, ?svc1, snd (snd ?r))"
    by (cases "fst ?r") (simp_all add: prod_eq_iff)
  have resp: "respond ?w (Get (baseURL ?svc @ ''/zip'') [(''zip'', JStr ''10001'')]) = Inr ?raw"
    by (simp add: exampleWorld_def)
  have m1: "member (member ?raw ''location'') ''lat'' = JUndefined"
    by (simp add: member_def getProp_def)
  have m2: "member (member ?raw ''location'') ''lon'' = JUndefined"
    by (simp add: member_def getProp_def)
  note t = zip_without_coordinates_cached_at_origin [OF r resp m1 m2]
  note z = t [THEN conjunct1]
  note s = t [THEN conjunct2, THEN conjunct2, THEN conjunct1]
  note hit = t [THEN conjunct2, THEN conjunct2, THEN conjunct2, THEN conjunct2, THEN conjunct1,
      rule_format]
  note miss = t [THEN conjunct2, THEN conjunct2, THEN conjunct2, THEN conjunct2, THEN conjunct2,
      THEN conjunct2, THEN conjunct2, rule_format]
  have c: "cache ?svc1 ''0.00,0.00'' = Some \<lparr>data = ?snap, timestamp = 1000\<rparr>"
    by (subst s) (simp add: exampleWorld_def)
  have k: "getCacheKey ?nts (JNum (Fin (1 / 1024))) (JNum NegZero) = Inr ''0.00,0.00''"
    by (simp add: getCacheKey_def callToFixed_def toFixed_eval)
  have pre: "cacheTimeout ?svc = 10 * 60 * 1000 \<and> now_check ?w2 - now_store ?w < 10 * 60 * 1000
      \<and> getCacheKey ?nts (JNum (Fin (1 / 1024))) (JNum NegZero) = Inr ''0.00,0.00''"
    using k by (simp add: constructor_def exampleWorld_def)
  note g = hit [OF pre]
  have pre2: "cache ?svc = Map.empty \<and> \<bar>1 / 1024 :: rat\<bar> < 10 ^ 21
      \<and> \<bar>- 1 / 1024 :: rat\<bar> < 10 ^ 21 \<and> ((1 / 1024 :: rat) < 0 \<or> (- 1 / 1024 :: rat) < 0)"
    by (simp add: constructor_def)
  from miss [OF pre2, of ?w3] have n: "snd (snd (getWeatherByCoords ?nts ?svc1 ?w3
      (JNum (Fin (1 / 1024))) (JNum (Fin (- 1 / 1024))))) =
      [Get ''/api/weather/coords''
         [(''lat'', JNum (Fin (1 / 1024))), (''lon'', JNum (Fin (- 1 / 1024)))]]"
    by (simp add: constructor_def)
  have f: "fst ?r = Inr ?snap" using ok by (cases "fst ?r") simp_all
  show ?thesis
    unfolding Let_def using ok m1 m2 z c g f n by simp
qed

section \<open>Failures: C3 and C9\<close>

text \<open>
  C3. A ZIP lookup whose request is rejected, and a coordinate lookup that goes to the
  network and whose request is rejected, fail with \<open>new Error(message)\<close>, where the
  message is that of \<open>getErrorMessage\<close> for the rejection and nothing else of the
  rejection is kept; and \<open>getErrorMessage\<close> gives the six documented messages: for the
  statuses 404, 429 and 500, for any other status, for a request without response, and
  for a request that could not be set up, whatever the body of the response.
\<close>

theorem error_conditions_mapped:
  "(\<forall>e. respond w (Get (baseURL svc @ ''/zip'') [(''zip'', zipCode)]) = Inl e \<longrightarrow>
        getWeatherByZip nts svc w zipCode =
          (Inl (Error (getErrorMessage e)), svc,
           [Get (baseURL svc @ ''/zip'') [(''zip'', zipCode)]]))
   \<and> (\<forall>e k. getCacheKey nts latv lonv = Inr k
           \<and> (\<forall>c. cache svc k = Some c \<longrightarrow> \<not> isCacheValid svc (now_check w) c)
           \<and> respond w (Get (baseURL svc @ ''/coords'') [(''lat'', latv), (''lon'', lonv)])
               = Inl e \<longrightarrow>
        getWeatherByCoords nts svc w latv lonv =
          (Inl (Error (getErrorMessage e)), svc,
           [Get (baseURL svc @ ''/coords'') [(''lat'', latv), (''lon'', lonv)]]))
   \<and> getErrorMessage (HttpError 404 body) = ''Location not found. Please check your ZIP code.''
   \<and> getErrorMessage (HttpError 429 body) =
        ''Too many requests. Please wait a moment and try again.''
   \<and> getErrorMessage (HttpError 500 body) = ''Weather service is temporarily unavailable.''
   \<and> (status \<noteq> 404 \<and> status \<noteq> 429 \<and> status \<noteq> 500 \<longrightarrow>
        getErrorMessage (HttpError status body) =
          ''Unable to fetch weather data. Please try again.'')
   \<and> getErrorMessage NoResponse = ''No internet connection. Please check your network.''
   \<and> getErrorMessage SetupError = ''Something went wrong. Please try again.''"
proof -
  have "getWeatherByCoords nts svc w latv lonv =
          (Inl (Error (getErrorMessage e)), svc,
           [Get (baseURL svc @ ''/coords'') [(''lat'', latv), (''lon'', lonv)]])"
    if "getCacheKey nts latv lonv = Inr k"
      and "\<forall>c. cache svc k = Some c \<longrightarrow> \<not> isCacheValid svc (now_check w) c"
      and "respond w (Get (baseURL svc @ ''/coords'') [(''lat'', latv), (''lon'', lonv)]) = Inl e"
    for e k
    using getWeatherData_miss [OF that(1,2)] that(3)
    by (simp add: getWeatherByCoords_def)
  then show ?thesis
    by (simp add: getWeatherByZip_rejected getErrorMessage_def)
qed

text \<open>
  The theorem at a ZIP lookup answered 404 and a coordinate lookup answered 503.
\<close>

theorem error_conditions_mapped_witness:
  "getWeatherByZip (\<lambda>_. []) (constructor None)
      (exampleWorld 1000 (Inl (HttpError 404 (JStr ''no such zip'')))) (JStr ''00000'')
     = (Inl (Error ''Location not found. Please check your ZIP code.''), constructor None,
        [Get ''/api/weather/zip'' [(''zip'', JStr ''00000'')]])
   \<and> getWeatherByCoords (\<lambda>_. []) (constructor None)
      (exampleWorld 1000 (Inl (HttpError 503 JNull))) (JNum (Fin (163 / 4))) (JNum (Fin (- 74)))
     = (Inl (Error ''Unable to fetch weather data. Please try again.''), constructor None,
        [Get ''/api/weather/coords''
           [(''lat'', JNum (Fin (163 / 4))), (''lon'', JNum (Fin (- 74)))]])"
proof -
  let ?nts = "\<lambda>_::rat. []"
  let ?svc = "constructor None"
  let ?w1 = "exampleWorld 1000 (Inl (HttpError 404 (JStr ''no such zip'')))"
  let ?w2 = "exampleWorld 1000 (Inl (HttpError 503 JNull))"
  note t = error_conditions_mapped [of ?w1 ?svc "JStr ''00000''" ?nts JUndefined JUndefined "JStr ''no such zip''" 0]
  note u = error_conditions_mapped [of ?w2 ?svc JNull ?nts "JNum (Fin (163 / 4))" "JNum (Fin (- 74))" JNull 503]
  have b: "baseURL ?svc = ''/api/weather''" by (simp add: constructor_def)
  have "respond ?w1 (Get (baseURL ?svc @ ''/zip'') [(''zip'', JStr ''00000'')])
          = Inl (HttpError 404 (JStr ''no such zip''))"
    by (simp add: exampleWorld_def)
  with t have z: "getWeatherByZip ?nts ?svc ?w1 (JStr ''00000'') =
      (Inl (Error ''Location not found. Please check your ZIP code.''), ?svc,
       [Get (baseURL ?svc @ ''/zip'') [(''zip'', JStr ''00000'')]])"
    by metis
  have k: "getCacheKey ?nts (JNum (Fin (163 / 4))) (JNum (Fin (- 74))) = Inr ''40.75,-74.00''"
    by (simp add: getCacheKey_def callToFixed_def toFixed_eval)
  have m: "\<forall>c. cache ?svc ''40.75,-74.00'' = Some c \<longrightarrow> \<not> isCacheValid ?svc (now_check ?w2) c"
    by (simp add: constructor_def)
  have e: "respond ?w2 (Get (baseURL ?svc @ ''/coords'')
        [(''lat'', JNum (Fin (163 / 4))), (''lon'', JNum (Fin (- 74)))]) = Inl (HttpError 503 JNull)"
    by (simp add: exampleWorld_def)
  have s: "(503::int) \<noteq> 404 \<and> (503::int) \<noteq> 429 \<and> (503::int) \<noteq> 500" by simp
  from u k m e s have c: "getWeatherByCoords ?nts ?svc ?w2 (JNum (Fin (163 / 4))) (JNum (Fin (- 74))) =
      (Inl (Error ''Unable to fetch weather data. Please try again.''), ?svc,
       [Get (baseURL ?svc @ ''/coords'')
          [(''lat'', JNum (Fin (163 / 4))), (''lon'', JNum (Fin (- 74)))]])"
    by metis
  from z c show ?thesis by (simp add: b)
qed

text \<open>
  C9. A lookup that fails leaves the service, and so the cache, exactly as it was; and
  when a lookup changes the service, its request was answered, the normalization of the
  answer returned a snapshot, and the lookup returned that snapshot.
\<close>

theorem failed_lookup_leaves_service:
  "(getWeatherByCoords nts svc w latv lonv = (r, svc1, tr) \<longrightarrow>
      (isl r \<longrightarrow> svc1 = svc)
    \<and> (svc1 \<noteq> svc \<longrightarrow>
         (\<exists>rawData snap.
            respond w (Get (baseURL svc @ ''/coords'') [(''lat'', latv), (''lon'', lonv)])
              = Inr rawData
          \<and> transformWeatherData (now_transform w) rawData = Inr snap \<and> r = Inr snap)))
   \<and> (getWeatherByZip nts svc w zipCode = (r2, svc2, tr2) \<longrightarrow>
      (isl r2 \<longrightarrow> svc2 = svc)
    \<and> (svc2 \<noteq> svc \<longrightarrow>
         (\<exists>rawData snap.
            respond w (Get (baseURL svc @ ''/zip'') [(''zip'', zipCode)]) = Inr rawData
          \<and> transformWeatherData (now_transform w) rawData = Inr snap \<and> r2 = Inr snap)))"
proof -
  have "svc1 = svc" if "getWeatherByCoords nts svc w latv lonv = (r, svc1, tr)" "isl r"
    using that getWeatherData_failure [of nts svc w latv lonv _ svc1 tr]
    by (cases r) (simp_all add: getWeatherByCoords_def)
  moreover have "svc2 = svc" if "getWeatherByZip nts svc w zipCode = (r2, svc2, tr2)" "isl r2"
    using that getWeatherByZip_failure [of nts svc w zipCode _ svc2 tr2]
    by (cases r2) simp_all
  ultimately show ?thesis
    using getWeatherData_changed [of nts svc w latv lonv r svc1 tr]
      getWeatherByZip_changed [of nts svc w zipCode r2 svc2 tr2]
    by (simp add: getWeatherByCoords_def)
qed

text \<open>
  The theorem at a service with one entry: a coordinate lookup past the TTL answered
  500, and a ZIP lookup answered \<open>null\<close>, on which the normalization throws.
\<close>

theorem failed_lookup_leaves_service_witness:
  "(let nts = (\<lambda>_. []);
        svc = (constructor None)\<lparr>cache := [''40.75,-74.00'' \<mapsto>
                 \<lparr>data = projr (transformWeatherData 1000 (JObj [])), timestamp = 1000\<rparr>]\<rparr>;
        r = getWeatherByCoords nts svc (exampleWorld 601000 (Inl (HttpError 500 JNull)))
              (JNum (Fin (163 / 4))) (JNum (Fin (- 74)));
        r2 = getWeatherByZip nts svc (exampleWorld 601000 (Inr JNull)) (JStr ''10001'')
    in isl (fst r) \<and> fst (snd r) = svc \<and> isl (fst r2) \<and> fst (snd r2) = svc)"
proof -
  let ?nts = "\<lambda>_::rat. []"
  let ?svc = "(constructor None)\<lparr>cache := [''40.75,-74.00'' \<mapsto>
                 \<lparr>data = projr (transformWeatherData 1000 (JObj [])), timestamp = 1000\<rparr>]\<rparr>"
  let ?w = "exampleWorld 601000 (Inl (HttpError 500 JNull))"
  let ?w2 = "exampleWorld 601000 (Inr JNull)"
  let ?r = "getWeatherByCoords ?nts ?svc ?w (JNum (Fin (163 / 4))) (JNum (Fin (- 74)))"
  let ?r2 = "getWeatherByZip ?nts ?svc ?w2 (JStr ''10001'')"
  have l: "isl (fst ?r)"
    by (simp add: lookup_eval toFixed_eval)
  have l2: "isl (fst ?r2)"
    by (simp add: lookup_eval transform_eval)
  have p: "?r = (fst ?r, fst (snd ?r), snd (snd ?r))" by simp
  have p2: "?r2 = (fst ?r2, fst (snd ?r2), snd (snd ?r2))" by simp
  from failed_lookup_leaves_service [of ?nts ?svc ?w "JNum (Fin (163 / 4))" "JNum (Fin (- 74))" "fst ?r" "fst (snd ?r)"
      "snd (snd ?r)" JNull "fst ?r" "fst (snd ?r)" "snd (snd ?r)"] p l
  have a: "fst (snd ?r) = ?svc" by blast
  from failed_lookup_leaves_service [of ?nts ?svc ?w2 JNull JNull "fst ?r2" "fst (snd ?r2)" "snd (snd ?r2)"
      "JStr ''10001''" "fst ?r2" "fst (snd ?r2)" "snd (snd ?r2)"] p2 l2
  have b: "fst (snd ?r2) = ?svc" by blast
  from l a l2 b show ?thesis unfolding Let_def by blast
qed

end
